theory Spec2Isabelle
  imports Main
begin

section \<open>The HTTP gateway of nsqd: data model\<close>

text \<open>
  The repository holds two HTTP front ends with the same handler names: the one of package
  \<open>nsqdserver\<close> (\<open>nsqdserver/http.go\<close>, partition aware, with a buffer pool) and the one of
  package \<open>nsqd\<close> (the second source file). Handlers of \<open>nsqdserver\<close> keep their source
  names; the handlers of package \<open>nsqd\<close> that differ carry the prefix \<open>nsqd_\<close>.
  \<open>doStats\<close>, \<open>doConfig\<close> and \<open>getOptByCfgName\<close> have the same body in both files and are
  embedded once.

  Byte slices are \<open>string\<close> (lists of 8-bit characters). \<open>int64\<close> quantities are integers;
  the one place where the code adds to one (\<open>readMax\<close>) wraps explicitly.
\<close>

definition newline :: char where
  "newline = CHR 0x0A"

definition int64 :: "int \<Rightarrow> int" where
  \<comment> \<open>two's complement wrap-around of a 64-bit signed result\<close>
  "int64 x = (x + 2 ^ 63) mod 2 ^ 64 - 2 ^ 63"

definition is_int64 :: "int \<Rightarrow> bool" where
  "is_int64 x = (- (2 ^ 63) \<le> x \<and> x < 2 ^ 63)"

text \<open>
  \<open>http_api.Err{Code, Text}\<close>, and what a handler call comes to: a value, an error for
  the client, or a run-time panic.
\<close>

datatype Err = Err int string

datatype 'a answer = OK 'a | Failed Err | Panicked

subsection \<open>Statistics snapshot\<close>

text \<open>
  \<open>nsqd.TopicStats\<close>, \<open>nsqd.ChannelStats\<close> and the client statistics, with the fields that
  \<open>printStats\<close> reads. The latency summary is opaque.
\<close>

record ClientStats =
  Version :: string
  Name :: string
  RemoteAddress :: string
  State :: int
  ClientInFlightCount :: int
  ReadyCount :: int
  FinishCount :: int
  ClientRequeueCount :: int
  ClientMessageCount :: int
  ConnectTime :: int

record ChannelStats =
  ChannelName :: string
  ChannelDepth :: int
  ChannelBackendDepth :: int
  InFlightCount :: int
  DeferredCount :: int
  RequeueCount :: int
  TimeoutCount :: int
  ChannelMessageCount :: int
  ChannelE2eProcessingLatency :: string
  Paused :: bool
  Clients :: "ClientStats list"

record TopicStats =
  TopicName :: string
  Depth :: int
  BackendDepth :: int
  MessageCount :: int
  E2eProcessingLatency :: string
  Channels :: "ChannelStats list"

subsection \<open>Requests\<close>

text \<open>
  A request body is a stream: the bytes \<open>pending\<close> arrive in order, and then the stream
  ends, with \<open>io.EOF\<close>, or with another read error when \<open>broken\<close> is set.
\<close>

record Body =
  pending :: string
  broken :: bool

datatype io_error = EOF | ErrUnexpectedEOF | ErrOther

text \<open>
  \<open>url.ParseQuery\<close> belongs to the standard library: the request carries its result on
  \<open>req.URL.RawQuery\<close>, \<open>None\<close> when it returns an error, and the key/value lists otherwise.
\<close>

record Request =
  Method :: string
  ContentLength :: int
  ReqBody :: Body
  Query :: "(string \<times> string list) list option"

text \<open>\<open>url.Values.Get\<close>: the first value of the key, or the empty string.\<close>

definition Values_Get :: "(string \<times> string list) list \<Rightarrow> string \<Rightarrow> string" where
  "Values_Get vs key =
     (case map_of vs key of None \<Rightarrow> [] | Some [] \<Rightarrow> [] | Some (v # _) \<Rightarrow> v)"

section \<open>Statistics: \<open>doStats\<close>\<close>

text \<open>
  The inner loop of \<open>doStats\<close>: the first channel named \<open>channelName\<close> replaces the channel
  list of \<open>topicStats\<close>; without such a channel \<open>topicStats\<close> is left as it is.
\<close>

fun selectChannel :: "string \<Rightarrow> ChannelStats list \<Rightarrow> TopicStats \<Rightarrow> TopicStats" where
  "selectChannel channelName [] topicStats = topicStats"
| "selectChannel channelName (channelStats # rest) topicStats =
     (if ChannelName channelStats = channelName
      then topicStats\<lparr>Channels := [channelStats]\<rparr>
      else selectChannel channelName rest topicStats)"

text \<open>
  The outer loop: the first topic named \<open>topicName\<close> becomes the whole snapshot; without
  such a topic the loop ends and \<open>stats\<close> is what it was.
\<close>

fun selectTopic :: "string \<Rightarrow> string \<Rightarrow> TopicStats list \<Rightarrow> TopicStats list \<Rightarrow> TopicStats list"
  where
  "selectTopic topicName channelName [] stats = stats"
| "selectTopic topicName channelName (topicStats # rest) stats =
     (if TopicName topicStats = topicName
      then [if length channelName > 0
            then selectChannel channelName (Channels topicStats) topicStats
            else topicStats]
      else selectTopic topicName channelName rest stats)"

definition filterStats :: "string \<Rightarrow> string \<Rightarrow> TopicStats list \<Rightarrow> TopicStats list" where
  "filterStats topicName channelName stats =
     (if length topicName > 0 then selectTopic topicName channelName stats stats else stats)"

text \<open>
  The two encodings of the answer. \<open>printStats\<close> formats the snapshot it is given with
  \<open>fmt.Sprintf\<close> and the clock; the text it produces is a parameter (\<open>render\<close>) applied to
  the filtered snapshot and the health string.
\<close>

datatype StatsReply =
  StatsText string
  | StatsJSON string string int "TopicStats list"

record StatsSource =
  getStats :: "TopicStats list"
  getHealth :: string
  getStartTime :: int
  versionBinary :: string
  render :: "TopicStats list \<Rightarrow> string \<Rightarrow> string"

definition doStats :: "StatsSource \<Rightarrow> Request \<Rightarrow> StatsReply answer" where
  "doStats ctx req =
     (case Query req of
        None \<Rightarrow> Failed (Err 400 ''INVALID_REQUEST'')
      | Some reqParams \<Rightarrow>
          let formatString = Values_Get reqParams ''format'';
              topicName = Values_Get reqParams ''topic'';
              channelName = Values_Get reqParams ''channel'';
              jsonFormat = (formatString = ''json'');
              stats = filterStats topicName channelName (getStats ctx);
              health = getHealth ctx
          in if \<not> jsonFormat then OK (StatsText (render ctx stats health))
             else OK (StatsJSON (versionBinary ctx) health (getStartTime ctx) stats))"

text \<open>The snapshot a reply was computed from.\<close>

fun replyTopics :: "StatsSource \<Rightarrow> StatsReply \<Rightarrow> TopicStats list \<Rightarrow> bool" where
  "replyTopics ctx (StatsText t) stats = (t = render ctx stats (getHealth ctx))"
| "replyTopics ctx (StatsJSON v h st topics) stats = (topics = stats)"

section \<open>Reading a request body\<close>

text \<open>
  \<open>io.LimitReader(r, n)\<close> delivers at most \<open>n\<close> bytes of \<open>r\<close> and then reports \<open>io.EOF\<close>;
  a read error of \<open>r\<close> shows only when \<open>r\<close> ends before the limit.
\<close>

definition LimitReader :: "Body \<Rightarrow> int \<Rightarrow> Body" where
  "LimitReader r n =
     \<lparr>pending = take (nat n) (pending r),
      broken = (broken r \<and> length (pending r) < nat n)\<rparr>"

text \<open>\<open>ioutil.ReadAll\<close>: everything up to the end of the stream; \<open>io.EOF\<close> is no error.\<close>

definition ReadAll :: "Body \<Rightarrow> string \<times> io_error option" where
  "ReadAll r = (pending r, if broken r then Some ErrOther else None)"

text \<open>
  \<open>io.ReadFull(r, buf)\<close> with \<open>len(buf) = len\<close>: the number of bytes read, the bytes and
  the error. The error is \<open>io.EOF\<close> only when nothing was read.
\<close>

definition ReadFull :: "Body \<Rightarrow> nat \<Rightarrow> nat \<times> string \<times> io_error option" where
  "ReadFull r len =
     (if len \<le> length (pending r) then (len, take len (pending r), None)
      else (length (pending r), pending r,
            Some (if broken r then ErrOther
                  else if pending r = [] then EOF else ErrUnexpectedEOF)))"

text \<open>
  \<open>bufio.Reader.ReadBytes(delim)\<close>: the bytes up to and including the first \<open>delim\<close>; when
  the stream ends before a \<open>delim\<close>, the bytes that were left and the stream's error. The
  third component is the reader afterwards.
\<close>

definition ReadBytes :: "Body \<Rightarrow> char \<Rightarrow> string \<times> io_error option \<times> Body" where
  "ReadBytes rdr delim =
     (if delim \<in> set (pending rdr)
      then (takeWhile (\<lambda>c. c \<noteq> delim) (pending rdr) @ [delim], None,
            rdr\<lparr>pending := tl (dropWhile (\<lambda>c. c \<noteq> delim) (pending rdr))\<rparr>)
      else (pending rdr, Some (if broken rdr then ErrOther else EOF), rdr\<lparr>pending := []\<rparr>))"

section \<open>Collaborators\<close>

text \<open>\<open>nsqd.NewMessage(id, body)\<close>.\<close>

datatype Message = NewMessage int string

record Topic =
  GetTopicName :: string
  GetTopicPart :: int

type_synonym Buffer = nat

text \<open>
  The runtime options. The three fields that \<open>doConfig\<close> can write and the two size
  ceilings are fields; the fields of the struct that the handlers never name are kept,
  by Go field name, in \<open>otherFields\<close>.
\<close>

datatype OptValue = VBool bool | VInt int | VString string | VStrings "string list"

record Options =
  MaxMsgSize :: int
  MaxBodySize :: int
  NSQLookupdTCPAddresses :: "string list"
  Verbose :: bool
  LogLevel :: int
  otherFields :: "(string \<times> OptValue) list"

text \<open>
  The calls a handler makes on the queue engine, the partition router, the pools, the
  options store and the route table, in the order it makes them.
\<close>

datatype call =
  BufferPoolGet Buffer
  | BufferPoolPut Buffer
  | NewBufioReader
  | PutBufioReader
  | PutMessage Topic string
  | ForwardPutMessage string int string
  | TopicPutMessage Topic Message
  | PutMessages Topic "Message list"
  | SetHealth "string option"
  | SwapOpts Options
  | TriggerOptsNotification
  | RouterServeHTTP

text \<open>
  What a handler call comes to: its answer, the collaborator calls it made and the number
  of bytes it took from the request body.
\<close>

record 'a outcome =
  answer :: "'a answer"
  calls :: "call list"
  nread :: nat

text \<open>
  What \<open>readMPUB\<close>, the decoder of the binary batch format, comes to: the messages, the
  buffers it hands back for release, the code of its \<open>protocol.FatalClientErr\<close> if it
  fails, the pool calls it makes and the bytes it reads.
\<close>

record MPUBResult =
  mpubMsgs :: "Message list"
  mpubBuffers :: "Buffer list"
  mpubErr :: "string option"
  mpubCalls :: "call list"
  mpubRead :: nat

text \<open>
  The context of package \<open>nsqdserver\<close>: each collaborator is the function from its
  arguments to what it returns; an \<open>error\<close> is its message.
\<close>

record "context" =
  getOpts :: Options
  GetTopicPartitionArgs :: "(string \<times> string list) list \<Rightarrow> string + (string \<times> int)"
  getExistingTopic :: "string \<Rightarrow> string + Topic"
  checkForMasterWrite :: "Topic \<Rightarrow> bool"
  ctxPutMessage :: "Topic \<Rightarrow> string \<Rightarrow> string option"
  forwardPutMessage :: "string \<Rightarrow> int \<Rightarrow> string \<Rightarrow> string option"
  topicPutMessages :: "Topic \<Rightarrow> Message list \<Rightarrow> string option"
  topicBufferPoolGet :: "Topic \<Rightarrow> int \<Rightarrow> Buffer"

text \<open>
  The context of package \<open>nsqd\<close>. Its \<open>readMPUB\<close>, called on the binary format, is not
  part of the two files and is a parameter.
\<close>

record nsqd_context =
  nsqd_getOpts :: Options
  IsValidTopicName :: "string \<Rightarrow> bool"
  Atoi :: "string \<Rightarrow> int option"
  GetTopicIgnPart :: "string \<Rightarrow> Topic"
  GetTopic :: "string \<Rightarrow> int \<Rightarrow> Topic"
  nsqd_PutMessage :: "Topic \<Rightarrow> Message \<Rightarrow> string option"
  nsqd_PutMessages :: "Topic \<Rightarrow> Message list \<Rightarrow> string option"
  nsqd_readMPUB :: "Body \<Rightarrow> Topic \<Rightarrow> int \<Rightarrow> MPUBResult"

section \<open>The binary batch format\<close>

text \<open>
  A length of the binary format: four bytes, big-endian. \<open>None\<close> when the stream has
  fewer than four bytes left.
\<close>

definition readLen :: "Body \<Rightarrow> (nat \<times> Body) option" where
  "readLen r =
     (case pending r of
        b3 # b2 # b1 # b0 # rest \<Rightarrow>
          Some (((of_char b3 * 256 + of_char b2) * 256 + of_char b1) * 256 + of_char b0,
                r\<lparr>pending := rest\<rparr>)
      | _ \<Rightarrow> None)"

text \<open>
  Modelled from the spec: \<open>readMPUB\<close> of package \<open>nsqdserver\<close>, which \<open>doMPUB\<close> calls as
  \<open>readMPUB(req.Body, tmp, topic, MaxMsgSize)\<close> for \<open>(msgs, buffers, err)\<close> and which is not
  part of the two files. In the words of the specification the body is a message count,
  read once, and then that many payloads, each a four-byte big-endian length and the
  payload bytes; the decode fails the first time a payload length exceeds the
  per-message ceiling or the stream ends before the declared count of payloads is
  reached, without emitting that payload; a buffer is leased from the pool for a payload
  and every leased buffer is released on every exit path, success or failure. As
  \<open>doMPUB\<close> releases exactly the buffers it is handed, the decoder hands back every buffer
  it has leased, also when it fails. The call passes the per-message ceiling alone, so the
  body ceiling is not consulted here. The specification names no error codes: the codes
  \<open>E_BAD_BODY\<close> and \<open>E_BAD_MESSAGE\<close> stand for the two failures, and \<open>doMPUB\<close> strips their
  first two bytes.

  \<open>readMPUB_frames\<close> decodes the payloads that are still due, from what is decoded so far.
\<close>

fun readMPUB_frames :: "context \<Rightarrow> Topic \<Rightarrow> int \<Rightarrow> nat \<Rightarrow> Body \<Rightarrow> MPUBResult \<Rightarrow> MPUBResult"
  where
  "readMPUB_frames ctx topic maxMsgSize 0 r sofar = sofar"
| "readMPUB_frames ctx topic maxMsgSize (Suc due) r sofar =
     (case readLen r of
        None \<Rightarrow>
          sofar\<lparr>mpubMsgs := [], mpubErr := Some ''E_BAD_MESSAGE'',
                mpubRead := mpubRead sofar + length (pending r)\<rparr>
      | Some (len, r') \<Rightarrow>
          if maxMsgSize < int len
          then sofar\<lparr>mpubMsgs := [], mpubErr := Some ''E_BAD_MESSAGE'',
                     mpubRead := mpubRead sofar + 4\<rparr>
          else
            let b = topicBufferPoolGet ctx topic (int len);
                leased = sofar\<lparr>mpubBuffers := mpubBuffers sofar @ [b],
                                mpubCalls := mpubCalls sofar @ [BufferPoolGet b]\<rparr>
            in if length (pending r') < len
               then leased\<lparr>mpubMsgs := [], mpubErr := Some ''E_BAD_MESSAGE'',
                           mpubRead := mpubRead sofar + 4 + length (pending r')\<rparr>
               else readMPUB_frames ctx topic maxMsgSize due
                      (r'\<lparr>pending := drop len (pending r')\<rparr>)
                      (leased\<lparr>mpubMsgs := mpubMsgs sofar @ [NewMessage 0 (take len (pending r'))],
                              mpubRead := mpubRead sofar + 4 + len\<rparr>))"

definition readMPUB :: "context \<Rightarrow> Body \<Rightarrow> Topic \<Rightarrow> int \<Rightarrow> MPUBResult" where
  "readMPUB ctx body topic maxMsgSize =
     (case readLen body of
        None \<Rightarrow>
          \<lparr>mpubMsgs = [], mpubBuffers = [], mpubErr = Some ''E_BAD_BODY'', mpubCalls = [],
           mpubRead = length (pending body)\<rparr>
      | Some (numMessages, r) \<Rightarrow>
          readMPUB_frames ctx topic maxMsgSize numMessages r
            \<lparr>mpubMsgs = [], mpubBuffers = [], mpubErr = None, mpubCalls = [], mpubRead = 4\<rparr>)"

section \<open>Publishing, package \<open>nsqdserver\<close>\<close>

definition getExistingTopicFromQuery ::
  "context \<Rightarrow> Request \<Rightarrow> Err + ((string \<times> string list) list \<times> Topic)" where
  "getExistingTopicFromQuery ctx req =
     (case Query req of
        None \<Rightarrow> Inl (Err 400 ''INVALID_REQUEST'')
      | Some reqParams \<Rightarrow>
          (case GetTopicPartitionArgs ctx reqParams of
             Inl msg \<Rightarrow> Inl (Err 400 msg)
           | Inr (topicName, topicPart) \<Rightarrow>
               (case getExistingTopic ctx topicName of
                  Inl msg \<Rightarrow> Inl (Err 400 msg)
                | Inr topic \<Rightarrow>
                    if topicPart \<noteq> GetTopicPart topic
                    then Inl (Err 404 ''Topic partition not exist'')
                    else Inr (reqParams, topic))))"

text \<open>
  The end of \<open>doPUB\<close>, from the ownership check on: the local put on the master, the
  forward to the master otherwise.
\<close>

definition doPUB_write :: "context \<Rightarrow> Topic \<Rightarrow> string \<Rightarrow> string answer \<times> call list" where
  "doPUB_write ctx topic body =
     (if checkForMasterWrite ctx topic
      then (case ctxPutMessage ctx topic body of
              Some msg \<Rightarrow> (Failed (Err 503 msg), [PutMessage topic body])
            | None \<Rightarrow> (OK ''OK'', [PutMessage topic body]))
      else (case forwardPutMessage ctx (GetTopicName topic) (GetTopicPart topic) body of
              Some msg \<Rightarrow>
                (Failed (Err 500 msg),
                 [ForwardPutMessage (GetTopicName topic) (GetTopicPart topic) body])
            | None \<Rightarrow>
                (OK ''OK'',
                 [ForwardPutMessage (GetTopicName topic) (GetTopicPart topic) body])))"

text \<open>
  \<open>doPUB\<close>. The buffer is leased once the topic is known and its release is deferred, so
  every path after the lease ends with \<open>BufferPoolPut\<close>. \<open>body\<close> is the buffer cut to the
  declared length and, after a short read, to the \<open>n\<close> bytes read.
\<close>

definition doPUB :: "context \<Rightarrow> Request \<Rightarrow> string outcome" where
  "doPUB ctx req =
     (if ContentLength req > MaxMsgSize (getOpts ctx)
      then \<lparr>answer = Failed (Err 413 ''MSG_TOO_BIG''), calls = [], nread = 0\<rparr>
      else if ContentLength req \<le> 0
      then \<lparr>answer = Failed (Err 400 ''MSG_EMPTY''), calls = [], nread = 0\<rparr>
      else
        (case getExistingTopicFromQuery ctx req of
           Inl err \<Rightarrow> \<lparr>answer = Failed err, calls = [], nread = 0\<rparr>
         | Inr (reqParams, topic) \<Rightarrow>
             let readMax = int64 (ContentLength req + 1);
                 b = topicBufferPoolGet ctx topic (ContentLength req)
             in (case ReadFull (LimitReader (ReqBody req) readMax) (nat (ContentLength req)) of
                   (n, body, err) \<Rightarrow>
                     let (a, cs) =
                       (if err \<noteq> None \<and> err \<noteq> Some EOF \<and> err \<noteq> Some ErrUnexpectedEOF
                        then (Failed (Err 500 ''INTERNAL_ERROR''), [])
                        else if length body = 0 then (Failed (Err 400 ''MSG_EMPTY''), [])
                        else doPUB_write ctx topic body)
                     in \<lparr>answer = a,
                         calls = [BufferPoolGet b] @ cs @ [BufferPoolPut b],
                         nread = n\<rparr>)))"

text \<open>
  The loop of the text batch format, the same in both packages. \<open>tot\<close> is the variable
  \<open>total\<close>; the result is the error or the messages, and the reader after the last read.
\<close>

function mpubTextLoop ::
  "int \<Rightarrow> int \<Rightarrow> Body \<Rightarrow> int \<Rightarrow> Message list \<Rightarrow> (Err + Message list) \<times> Body" where
  "mpubTextLoop maxMsgSize readMax rdr tot msgs =
     (case ReadBytes rdr newline of
        (block, err, rdr') \<Rightarrow>
          if err \<noteq> None \<and> err \<noteq> Some EOF then (Inl (Err 500 ''INTERNAL_ERROR''), rdr')
          else
            let exit = (err \<noteq> None);
                tot' = tot + int (length block)
            in if tot' = readMax then (Inl (Err 413 ''BODY_TOO_BIG''), rdr')
               else
                 let block' = (if length block > 0 \<and> last block = newline
                               then butlast block else block)
                 in if length block' = 0
                    then (if exit then (Inr msgs, rdr')
                          else mpubTextLoop maxMsgSize readMax rdr' tot' msgs)
                    else if int (length block') > maxMsgSize
                    then (Inl (Err 413 ''MSG_TOO_BIG''), rdr')
                    else if exit then (Inr (msgs @ [NewMessage 0 block']), rdr')
                    else mpubTextLoop maxMsgSize readMax rdr' tot'
                           (msgs @ [NewMessage 0 block']))"
  by pat_completeness auto
termination
proof (relation "measure (\<lambda>(maxMsgSize, readMax, rdr, tot, msgs). length (pending rdr))")
  have shorter: "length (pending rdr') < length (pending rdr)"
    if "(block, None, rdr') = ReadBytes rdr newline" for block rdr' rdr
  proof -
    let ?xs = "pending rdr"
    from that have found: "newline \<in> set ?xs"
      and rest: "pending rdr' = tl (dropWhile (\<lambda>c. c \<noteq> newline) ?xs)"
      by (auto simp: ReadBytes_def split: if_splits)
    from found have "dropWhile (\<lambda>c. c \<noteq> newline) ?xs \<noteq> []"
      by simp
    then have "length (tl (dropWhile (\<lambda>c. c \<noteq> newline) ?xs))
        < length (dropWhile (\<lambda>c. c \<noteq> newline) ?xs)"
      by (cases "dropWhile (\<lambda>c. c \<noteq> newline) ?xs") simp_all
    also have "\<dots> \<le> length ?xs"
      by (rule length_dropWhile_le)
    finally show ?thesis
      using rest by simp
  qed
  show "wf (measure (\<lambda>(maxMsgSize, readMax, rdr, tot, msgs). length (pending rdr)))"
    by simp
  show "((maxMsgSize, readMax, rdr', tot', msgs), maxMsgSize, readMax, rdr, tot, msgs)
       \<in> measure (\<lambda>(maxMsgSize, readMax, rdr, tot, msgs). length (pending rdr))"
    if "(block, y) = ReadBytes rdr newline" "(err, rdr') = y" "exit = (err \<noteq> None)" "\<not> exit"
    for maxMsgSize readMax tot tot' :: int and rdr and msgs :: "Message list"
      and block y err rdr' exit
    using that shorter [of block rdr' rdr] by auto
  show "((maxMsgSize, readMax, rdr', tot', msgs'), maxMsgSize, readMax, rdr, tot, msgs)
       \<in> measure (\<lambda>(maxMsgSize, readMax, rdr, tot, msgs). length (pending rdr))"
    if "(block, y) = ReadBytes rdr newline" "(err, rdr') = y" "exit = (err \<noteq> None)" "\<not> exit"
    for maxMsgSize readMax tot tot' :: int and rdr and msgs msgs' :: "Message list"
      and block y err rdr' exit
    using that shorter [of block rdr' rdr] by auto
qed

declare mpubTextLoop.simps [simp del]

text \<open>
  The text decode of a request body: the loop on \<open>LimitReader(req.Body, readMax)\<close> with
  \<open>readMax = MaxBodySize + 1\<close>, and the bytes it consumed.
\<close>

definition mpubText :: "Options \<Rightarrow> Body \<Rightarrow> (Err + Message list) \<times> nat" where
  "mpubText opts body =
     (let readMax = int64 (MaxBodySize opts + 1);
          rdr = LimitReader body readMax
      in (case mpubTextLoop (MaxMsgSize opts) readMax rdr 0 [] of
            (r, rdr') \<Rightarrow> (r, length (pending rdr) - length (pending rdr'))))"

text \<open>The end of \<open>doMPUB\<close>: the batch goes to the topic of this node.\<close>

definition doMPUB_write :: "context \<Rightarrow> Topic \<Rightarrow> Message list \<Rightarrow> string answer \<times> call list"
  where
  "doMPUB_write ctx topic msgs =
     (let err = topicPutMessages ctx topic msgs
      in (if err \<noteq> None then Failed (Err 503 ''EXITING'') else OK ''OK'',
          [PutMessages topic msgs, SetHealth err]))"

text \<open>
  \<open>doMPUB\<close>. In the binary format the deferred function releases the buffers that
  \<open>readMPUB\<close> returned; \<open>Code[2:]\<close> panics on a code shorter than two bytes. In the text
  format the pooled reader is released by the deferred \<open>PutBufioReader\<close>.
\<close>

definition doMPUB :: "context \<Rightarrow> Request \<Rightarrow> string outcome" where
  "doMPUB ctx req =
     (if ContentLength req > MaxBodySize (getOpts ctx)
      then \<lparr>answer = Failed (Err 413 ''BODY_TOO_BIG''), calls = [], nread = 0\<rparr>
      else
        (case getExistingTopicFromQuery ctx req of
           Inl err \<Rightarrow> \<lparr>answer = Failed err, calls = [], nread = 0\<rparr>
         | Inr (reqParams, topic) \<Rightarrow>
             if map_of reqParams ''binary'' \<noteq> None
             then
               let r = readMPUB ctx (ReqBody req) topic (MaxMsgSize (getOpts ctx));
                   (a, cs) =
                     (case mpubErr r of
                        Some code \<Rightarrow>
                          (if length code < 2 then Panicked
                           else Failed (Err 413 (drop 2 code)), [])
                      | None \<Rightarrow> doMPUB_write ctx topic (mpubMsgs r))
               in \<lparr>answer = a,
                   calls = mpubCalls r @ cs @ map BufferPoolPut (mpubBuffers r),
                   nread = mpubRead r\<rparr>
             else
               (case mpubText (getOpts ctx) (ReqBody req) of
                  (decoded, n) \<Rightarrow>
                    let (a, cs) =
                      (case decoded of
                         Inl err \<Rightarrow> (Failed err, [])
                       | Inr msgs \<Rightarrow> doMPUB_write ctx topic msgs)
                    in \<lparr>answer = a,
                        calls = [NewBufioReader] @ cs @ [PutBufioReader],
                        nread = n\<rparr>)))"

section \<open>Publishing, package \<open>nsqd\<close>\<close>

text \<open>
  \<open>getTopicFromQuery\<close>: the topic is looked up or created by the engine; indexing an empty
  value list panics.
\<close>

definition nsqd_getTopicFromQuery ::
  "nsqd_context \<Rightarrow> Request \<Rightarrow> ((string \<times> string list) list \<times> Topic) answer" where
  "nsqd_getTopicFromQuery ctx req =
     (case Query req of
        None \<Rightarrow> Failed (Err 400 ''INVALID_REQUEST'')
      | Some reqParams \<Rightarrow>
          (case map_of reqParams ''topic'' of
             None \<Rightarrow> Failed (Err 400 ''MISSING_ARG_TOPIC'')
           | Some [] \<Rightarrow> Panicked
           | Some (topicName # _) \<Rightarrow>
               if \<not> IsValidTopicName ctx topicName then Failed (Err 400 ''INVALID_TOPIC'')
               else
                 (case map_of reqParams ''partition'' of
                    None \<Rightarrow> OK (reqParams, GetTopicIgnPart ctx topicName)
                  | Some [] \<Rightarrow> Panicked
                  | Some (part # _) \<Rightarrow>
                      (case Atoi ctx part of
                         None \<Rightarrow> Failed (Err 400 ''INVALID_ARG_TOPIC_PARTITION'')
                       | Some topicPart \<Rightarrow> OK (reqParams, GetTopic ctx topicName topicPart)))))"

definition nsqd_doPUB :: "nsqd_context \<Rightarrow> Request \<Rightarrow> string outcome" where
  "nsqd_doPUB ctx req =
     (if ContentLength req > MaxMsgSize (nsqd_getOpts ctx)
      then \<lparr>answer = Failed (Err 413 ''MSG_TOO_BIG''), calls = [], nread = 0\<rparr>
      else
        let readMax = int64 (MaxMsgSize (nsqd_getOpts ctx) + 1)
        in (case ReadAll (LimitReader (ReqBody req) readMax) of
              (body, err) \<Rightarrow>
                if err \<noteq> None
                then \<lparr>answer = Failed (Err 500 ''INTERNAL_ERROR''), calls = [],
                      nread = length body\<rparr>
                else if int (length body) = readMax
                then \<lparr>answer = Failed (Err 413 ''MSG_TOO_BIG''), calls = [],
                      nread = length body\<rparr>
                else if length body = 0
                then \<lparr>answer = Failed (Err 400 ''MSG_EMPTY''), calls = [],
                      nread = length body\<rparr>
                else
                  (case nsqd_getTopicFromQuery ctx req of
                     Failed err \<Rightarrow> \<lparr>answer = Failed err, calls = [], nread = length body\<rparr>
                   | Panicked \<Rightarrow> \<lparr>answer = Panicked, calls = [], nread = length body\<rparr>
                   | OK (reqParams, topic) \<Rightarrow>
                       let msg = NewMessage 0 body
                       in \<lparr>answer = (if nsqd_PutMessage ctx topic msg \<noteq> None
                                     then Failed (Err 503 ''EXITING'') else OK ''OK''),
                           calls = [TopicPutMessage topic msg],
                           nread = length body\<rparr>)))"

definition nsqd_doMPUB_write ::
  "nsqd_context \<Rightarrow> Topic \<Rightarrow> Message list \<Rightarrow> string answer \<times> call list" where
  "nsqd_doMPUB_write ctx topic msgs =
     (if nsqd_PutMessages ctx topic msgs \<noteq> None then Failed (Err 503 ''EXITING'') else OK ''OK'',
      [PutMessages topic msgs])"

definition nsqd_doMPUB :: "nsqd_context \<Rightarrow> Request \<Rightarrow> string outcome" where
  "nsqd_doMPUB ctx req =
     (if ContentLength req > MaxBodySize (nsqd_getOpts ctx)
      then \<lparr>answer = Failed (Err 413 ''BODY_TOO_BIG''), calls = [], nread = 0\<rparr>
      else
        (case nsqd_getTopicFromQuery ctx req of
           Failed err \<Rightarrow> \<lparr>answer = Failed err, calls = [], nread = 0\<rparr>
         | Panicked \<Rightarrow> \<lparr>answer = Panicked, calls = [], nread = 0\<rparr>
         | OK (reqParams, topic) \<Rightarrow>
             if map_of reqParams ''binary'' \<noteq> None
             then
               let r = nsqd_readMPUB ctx (ReqBody req) topic (MaxMsgSize (nsqd_getOpts ctx));
                   (a, cs) =
                     (case mpubErr r of
                        Some code \<Rightarrow>
                          (if length code < 2 then Panicked
                           else Failed (Err 413 (drop 2 code)), [])
                      | None \<Rightarrow> nsqd_doMPUB_write ctx topic (mpubMsgs r))
               in \<lparr>answer = a, calls = mpubCalls r @ cs, nread = mpubRead r\<rparr>
             else
               (case mpubText (nsqd_getOpts ctx) (ReqBody req) of
                  (decoded, n) \<Rightarrow>
                    let (a, cs) =
                      (case decoded of
                         Inl err \<Rightarrow> (Failed err, [])
                       | Inr msgs \<Rightarrow> nsqd_doMPUB_write ctx topic msgs)
                    in \<lparr>answer = a, calls = cs, nread = n\<rparr>)))"

section \<open>The TLS gate: \<open>ServeHTTP\<close>\<close>

text \<open>
  \<open>http_api.Respond(w, code, "", data)\<close> is recorded as the status code and the data; the
  route table is the function from a request to what its handler does.
\<close>

datatype Response = Respond int string

record httpServer =
  tlsEnabled :: bool
  tlsRequired :: bool
  router :: "Request \<Rightarrow> Response outcome"

text \<open>The \<open>%d\<close> verb of \<open>fmt.Sprintf\<close>.\<close>

fun decimal :: "nat \<Rightarrow> string" where
  "decimal n =
     (if n < 10 then [''0123456789'' ! n]
      else decimal (n div 10) @ [''0123456789'' ! (n mod 10)])"

declare decimal.simps [simp del]

definition fmt_d :: "int \<Rightarrow> string" where
  "fmt_d i = (if i < 0 then CHR ''-'' # decimal (nat (- i)) else decimal (nat i))"

definition ServeHTTP :: "httpServer \<Rightarrow> Request \<Rightarrow> Response outcome" where
  \<open>ServeHTTP s req =
     (if \<not> tlsEnabled s \<and> tlsRequired s
      then \<lparr>answer = OK (Respond 403 ''{"message": "TLS_REQUIRED"}''), calls = [], nread = 0\<rparr>
      else let served = router s req
           in served\<lparr>calls := RouterServeHTTP # calls served\<rparr>)\<close>

text \<open>In package \<open>nsqd\<close> the answer names \<open>RealHTTPSAddr().Port\<close>.\<close>

definition nsqd_ServeHTTP :: "httpServer \<Rightarrow> int \<Rightarrow> Request \<Rightarrow> Response outcome" where
  \<open>nsqd_ServeHTTP s httpsPort req =
     (if \<not> tlsEnabled s \<and> tlsRequired s
      then \<lparr>answer = OK (Respond 403
                (''{"message": "TLS_REQUIRED", "https_port": '' @ fmt_d httpsPort @ ''}'')),
            calls = [], nread = 0\<rparr>
      else let served = router s req
           in served\<lparr>calls := RouterServeHTTP # calls served\<rparr>)\<close>

section \<open>Runtime options: \<open>doConfig\<close>\<close>

text \<open>
  The declaration of the options struct is not part of the two files. \<open>getOptByCfgName\<close>
  walks its fields by reflection, so the declaration is a parameter: for each field, in
  order, the value of the field in a snapshot, its \<open>flag\<close> tag and its \<open>cfg\<close> tag.
  \<open>json.Unmarshal\<close> into a field of each of the three types is a parameter too: from the
  body and the present value of the field to the decoded value, \<open>None\<close> for an error.

  \<open>doConfig\<close> decodes into the fields of \<open>opts\<close>, a copy of the struct that \<open>getOpts\<close>
  returns. The copy has its own \<open>Verbose\<close> and \<open>LogLevel\<close>, but its slice
  \<open>NSQLookupdTCPAddresses\<close> shares its array with the slice of the snapshot it was copied
  from, and \<open>json.Unmarshal\<close> decodes the elements of a slice in place. So
  \<open>unmarshalStrings\<close> gives two things: the decoded value (\<open>None\<close> for an error), and the
  elements that the slice of the snapshot holds once the decoder has returned.
\<close>

type_synonym OptionsType = "((Options \<Rightarrow> OptValue) \<times> string \<times> string) list"

record ConfigEnv =
  optionsType :: OptionsType
  unmarshalStrings :: "string \<Rightarrow> string list \<Rightarrow> string list option \<times> string list"
  unmarshalBool :: "string \<Rightarrow> bool \<Rightarrow> bool option"
  unmarshalInt :: "string \<Rightarrow> int \<Rightarrow> int option"

text \<open>\<open>strings.Replace(flagName, "-", "_", -1)\<close>.\<close>

definition dashToUnderscore :: "string \<Rightarrow> string" where
  "dashToUnderscore flagName = map (\<lambda>c. if c = CHR ''-'' then CHR ''_'' else c) flagName"

fun getOptByCfgName :: "OptionsType \<Rightarrow> Options \<Rightarrow> string \<Rightarrow> OptValue option" where
  "getOptByCfgName [] opts name = None"
| "getOptByCfgName ((field, flagName, cfgName) # rest) opts name =
     (if flagName = [] then getOptByCfgName rest opts name
      else
        let cfgName' = (if cfgName = [] then dashToUnderscore flagName else cfgName)
        in if name \<noteq> cfgName' then getOptByCfgName rest opts name
           else Some (field opts))"

text \<open>
  The \<open>switch opt\<close> of \<open>doConfig\<close>, on the copy \<open>opts\<close> of the snapshot \<open>current\<close>: the
  error or the copy with the decoded field, and the elements that the address slice of
  \<open>current\<close> holds afterwards.
\<close>

definition setOption ::
  "ConfigEnv \<Rightarrow> string \<Rightarrow> string \<Rightarrow> Options \<Rightarrow> (Err + Options) \<times> string list" where
  "setOption env opt body current =
     (if opt = ''nsqlookupd_tcp_addresses''
      then (case unmarshalStrings env body (NSQLookupdTCPAddresses current) of
              (None, shared) \<Rightarrow> (Inl (Err 400 ''INVALID_VALUE''), shared)
            | (Some v, shared) \<Rightarrow> (Inr (current\<lparr>NSQLookupdTCPAddresses := v\<rparr>), shared))
      else if opt = ''verbose''
      then (case unmarshalBool env body (Verbose current) of
              None \<Rightarrow> (Inl (Err 400 ''INVALID_VALUE''), NSQLookupdTCPAddresses current)
            | Some v \<Rightarrow> (Inr (current\<lparr>Verbose := v\<rparr>), NSQLookupdTCPAddresses current))
      else if opt = ''log_level''
      then (case unmarshalInt env body (LogLevel current) of
              None \<Rightarrow> (Inl (Err 400 ''INVALID_VALUE''), NSQLookupdTCPAddresses current)
            | Some v \<Rightarrow> (Inr (current\<lparr>LogLevel := v\<rparr>), NSQLookupdTCPAddresses current))
      else (Inl (Err 400 ''INVALID_OPTION''), NSQLookupdTCPAddresses current))"

text \<open>The read at the end of \<open>doConfig\<close>, on the snapshot that \<open>getOpts\<close> returns then.\<close>

definition readOption :: "ConfigEnv \<Rightarrow> Options \<Rightarrow> string \<Rightarrow> OptValue answer" where
  "readOption env opts opt =
     (case getOptByCfgName (optionsType env) opts opt of
        None \<Rightarrow> Failed (Err 400 ''INVALID_OPTION'')
      | Some v \<Rightarrow> OK v)"

text \<open>
  What a call of \<open>doConfig\<close> comes to: its answer and calls; the snapshot that \<open>getOpts\<close>
  returns after the call; and the snapshot that \<open>getOpts\<close> returned before the call, as it
  reads after the call.
\<close>

record configured =
  reply :: "OptValue outcome"
  snapshot :: Options
  previous :: Options

text \<open>\<open>doConfig\<close>, from the snapshot \<open>current\<close> that the context holds.\<close>

definition doConfig :: "ConfigEnv \<Rightarrow> Options \<Rightarrow> string \<Rightarrow> Request \<Rightarrow> configured" where
  "doConfig env current opt req =
     (if Method req = ''PUT''
      then
        let readMax = int64 (MaxMsgSize current + 1)
        in (case ReadAll (LimitReader (ReqBody req) readMax) of
              (body, err) \<Rightarrow>
                if err \<noteq> None
                then \<lparr>reply = \<lparr>answer = Failed (Err 500 ''INTERNAL_ERROR''), calls = [],
                               nread = length body\<rparr>,
                      snapshot = current, previous = current\<rparr>
                else if int (length body) = readMax \<or> length body = 0
                then \<lparr>reply = \<lparr>answer = Failed (Err 413 ''INVALID_VALUE''), calls = [],
                               nread = length body\<rparr>,
                      snapshot = current, previous = current\<rparr>
                else
                  (case setOption env opt body current of
                     (Inl e, shared) \<Rightarrow>
                       \<lparr>reply = \<lparr>answer = Failed e, calls = [], nread = length body\<rparr>,
                        snapshot = current\<lparr>NSQLookupdTCPAddresses := shared\<rparr>,
                        previous = current\<lparr>NSQLookupdTCPAddresses := shared\<rparr>\<rparr>
                   | (Inr opts, shared) \<Rightarrow>
                       \<lparr>reply = \<lparr>answer = readOption env opts opt,
                                 calls = [SwapOpts opts, TriggerOptsNotification],
                                 nread = length body\<rparr>,
                        snapshot = opts,
                        previous = current\<lparr>NSQLookupdTCPAddresses := shared\<rparr>\<rparr>))
      else \<lparr>reply = \<lparr>answer = readOption env current opt, calls = [], nread = 0\<rparr>,
            snapshot = current, previous = current\<rparr>)"

section \<open>Notions used in the statements\<close>

text \<open>A call that writes messages: a put on the local engine or a forward to the master.\<close>

definition isWrite :: "call \<Rightarrow> bool" where
  "isWrite c =
     (case c of
        PutMessage topic body \<Rightarrow> True
      | ForwardPutMessage name part body \<Rightarrow> True
      | TopicPutMessage topic msg \<Rightarrow> True
      | PutMessages topic msgs \<Rightarrow> True
      | _ \<Rightarrow> False)"

text \<open>
  The number of buffers checked out of the buffer pool, and of readers checked out of the
  reader pool, after a sequence of calls, from the number before it.
\<close>

fun pool_after :: "call list \<Rightarrow> int \<Rightarrow> int" where
  "pool_after [] n = n"
| "pool_after (c # cs) n =
     pool_after cs (case c of BufferPoolGet b \<Rightarrow> n + 1 | BufferPoolPut b \<Rightarrow> n - 1 | _ \<Rightarrow> n)"

fun readers_after :: "call list \<Rightarrow> int \<Rightarrow> int" where
  "readers_after [] n = n"
| "readers_after (c # cs) n =
     readers_after cs (case c of NewBufioReader \<Rightarrow> n + 1 | PutBufioReader \<Rightarrow> n - 1 | _ \<Rightarrow> n)"

definition noPool :: "call list \<Rightarrow> bool" where
  "noPool cs =
     (\<forall>c \<in> set cs. case c of BufferPoolGet b \<Rightarrow> False | BufferPoolPut b \<Rightarrow> False
        | NewBufioReader \<Rightarrow> False | PutBufioReader \<Rightarrow> False | _ \<Rightarrow> True)"

text \<open>
  The tags of the three writable fields in the declaration of the options struct: each
  of the three configuration names leads \<open>getOptByCfgName\<close> to its field.
\<close>

definition writableTagged :: "ConfigEnv \<Rightarrow> bool" where
  "writableTagged env =
     (\<forall>opts.
        getOptByCfgName (optionsType env) opts ''nsqlookupd_tcp_addresses''
          = Some (VStrings (NSQLookupdTCPAddresses opts))
        \<and> getOptByCfgName (optionsType env) opts ''verbose'' = Some (VBool (Verbose opts))
        \<and> getOptByCfgName (optionsType env) opts ''log_level'' = Some (VInt (LogLevel opts)))"

text \<open>
  The newline-delimited chunks of a body, as the specification speaks of them: the
  pieces between the newlines, the newlines themselves left out. A body that ends with a
  newline has an empty last chunk.
\<close>

fun chunks :: "string \<Rightarrow> string list" where
  "chunks [] = [[]]"
| "chunks (c # cs) =
     (if c = newline then [] # chunks cs
      else (case chunks cs of [] \<Rightarrow> [[c]] | l # ls \<Rightarrow> (c # l) # ls))"

text \<open>A batch request in the text format that reaches the decoder, and its topic.\<close>

definition textBatchRequest :: "context \<Rightarrow> Request \<Rightarrow> Topic \<Rightarrow> bool" where
  "textBatchRequest ctx req topic =
     (ContentLength req \<le> MaxBodySize (getOpts ctx)
      \<and> (\<exists>reqParams. getExistingTopicFromQuery ctx req = Inr (reqParams, topic)
            \<and> map_of reqParams ''binary'' = None))"

definition nsqd_textBatchRequest :: "nsqd_context \<Rightarrow> Request \<Rightarrow> Topic \<Rightarrow> bool" where
  "nsqd_textBatchRequest ctx req topic =
     (ContentLength req \<le> MaxBodySize (nsqd_getOpts ctx)
      \<and> (\<exists>reqParams. nsqd_getTopicFromQuery ctx req = OK (reqParams, topic)
            \<and> map_of reqParams ''binary'' = None))"

text \<open>\<open>contains needle s\<close>: the bytes \<open>needle\<close> occur in \<open>s\<close>.\<close>

fun contains :: "string \<Rightarrow> string \<Rightarrow> bool" where
  "contains needle [] = (needle = [])"
| "contains needle (c # cs) = (take (length needle) (c # cs) = needle \<or> contains needle cs)"

section \<open>Sample data\<close>

definition chanX :: ChannelStats where
  "chanX = \<lparr>ChannelName = ''x'', ChannelDepth = 1, ChannelBackendDepth = 0, InFlightCount = 2,
     DeferredCount = 0, RequeueCount = 0, TimeoutCount = 0, ChannelMessageCount = 7,
     ChannelE2eProcessingLatency = [], Paused = False, Clients = []\<rparr>"

definition chanY :: ChannelStats where
  "chanY = chanX\<lparr>ChannelName := ''y'', Paused := True\<rparr>"

definition topicA :: TopicStats where
  "topicA = \<lparr>TopicName = ''a'', Depth = 3, BackendDepth = 0, MessageCount = 9,
     E2eProcessingLatency = [], Channels = [chanX, chanY]\<rparr>"

definition topicB :: TopicStats where
  "topicB = topicA\<lparr>TopicName := ''b'', Channels := [chanY]\<rparr>"

definition statsCtx :: StatsSource where
  "statsCtx = \<lparr>getStats = [topicA, topicB], getHealth = ''OK'', getStartTime = 0,
     versionBinary = ''0.3.6'', render = (\<lambda>stats health. health)\<rparr>"

definition statsReq :: "string \<Rightarrow> string \<Rightarrow> Request" where
  "statsReq topicName channelName =
     \<lparr>Method = ''GET'', ContentLength = 0, ReqBody = \<lparr>pending = [], broken = False\<rparr>,
      Query = Some [(''format'', [''json'']), (''topic'', [topicName]),
                    (''channel'', [channelName])]\<rparr>"

definition sampleOpts :: Options where
  "sampleOpts = \<lparr>MaxMsgSize = 10, MaxBodySize = 20, NSQLookupdTCPAddresses = [],
     Verbose = False, LogLevel = 2, otherFields = []\<rparr>"

definition sampleTopic :: Topic where
  "sampleTopic = \<lparr>GetTopicName = ''t'', GetTopicPart = 0\<rparr>"

text \<open>A node of package \<open>nsqdserver\<close> with the topic \<open>t\<close>, master of it or not.\<close>

definition sampleCtx :: "bool \<Rightarrow> context" where
  "sampleCtx master =
     \<lparr>getOpts = sampleOpts,
      GetTopicPartitionArgs =
        (\<lambda>reqParams. case map_of reqParams ''topic'' of
           Some (t # _) \<Rightarrow> Inr (t, 0) | _ \<Rightarrow> Inl ''MISSING_ARG_TOPIC''),
      getExistingTopic =
        (\<lambda>name. if name = ''t'' then Inr sampleTopic else Inl ''topic not found''),
      checkForMasterWrite = (\<lambda>topic. master),
      ctxPutMessage = (\<lambda>topic body. None),
      forwardPutMessage = (\<lambda>name part body. None),
      topicPutMessages = (\<lambda>topic msgs. None),
      topicBufferPoolGet = (\<lambda>topic capacity. 1)\<rparr>"

definition sampleNsqd :: nsqd_context where
  "sampleNsqd =
     \<lparr>nsqd_getOpts = sampleOpts,
      IsValidTopicName = (\<lambda>name. name \<noteq> []),
      Atoi = (\<lambda>s. if s = ''0'' then Some 0 else None),
      GetTopicIgnPart = (\<lambda>name. \<lparr>GetTopicName = name, GetTopicPart = 0\<rparr>),
      GetTopic = (\<lambda>name part. \<lparr>GetTopicName = name, GetTopicPart = part\<rparr>),
      nsqd_PutMessage = (\<lambda>topic msg. None),
      nsqd_PutMessages = (\<lambda>topic msgs. None),
      nsqd_readMPUB = (\<lambda>body topic maxMsgSize.
        \<lparr>mpubMsgs = [NewMessage 0 ''a''], mpubBuffers = [], mpubErr = None,
         mpubCalls = [], mpubRead = 9\<rparr>)\<rparr>"

text \<open>A publish request for topic \<open>t\<close> with a declared length and the bytes of its body.\<close>

definition pubReq :: "int \<Rightarrow> string \<Rightarrow> Request" where
  "pubReq declared bytes =
     \<lparr>Method = ''POST'', ContentLength = declared,
      ReqBody = \<lparr>pending = bytes, broken = False\<rparr>,
      Query = Some [(''topic'', [''t''])]\<rparr>"

text \<open>A batch request in the binary format for topic \<open>t\<close>, with the bytes of its body.\<close>

definition binaryReq :: "string \<Rightarrow> Request" where
  "binaryReq bytes =
     \<lparr>Method = ''POST'', ContentLength = int (length bytes),
      ReqBody = \<lparr>pending = bytes, broken = False\<rparr>,
      Query = Some [(''topic'', [''t'']), (''binary'', [''true''])]\<rparr>"

text \<open>
  Two bodies in the binary format: the one message \<open>a\<close>; and a count of two with the
  message \<open>a\<close> alone, so that the stream ends before the second payload.
\<close>

definition oneFrame :: string where
  "oneFrame = [CHR 0x00, CHR 0x00, CHR 0x00, CHR 0x01,
               CHR 0x00, CHR 0x00, CHR 0x00, CHR 0x01, CHR ''a'']"

definition cutFrames :: string where
  "cutFrames = [CHR 0x00, CHR 0x00, CHR 0x00, CHR 0x02,
                CHR 0x00, CHR 0x00, CHR 0x00, CHR 0x01, CHR ''a'']"

definition tlsGate :: httpServer where
  "tlsGate = \<lparr>tlsEnabled = False, tlsRequired = True,
     router = (\<lambda>req. \<lparr>answer = OK (Respond 200 ''OK''), calls = [], nread = 0\<rparr>)\<rparr>"

text \<open>
  A declaration of the options struct and a decoder. On the body \<open>["x", 1]\<close> the decoder
  of the address list stores \<open>x\<close> as the first element and then fails on the number.
\<close>

definition sampleEnv :: ConfigEnv where
  \<open>sampleEnv =
     \<lparr>optionsType =
        [(\<lambda>opts. VBool (Verbose opts), ''verbose'', []),
         (\<lambda>opts. VInt (LogLevel opts), ''log-level'', ''log_level''),
         (\<lambda>opts. VStrings (NSQLookupdTCPAddresses opts), ''lookupd-tcp-address'',
            ''nsqlookupd_tcp_addresses''),
         (\<lambda>opts. VInt (MaxMsgSize opts), ''max-msg-size'', [])],
      unmarshalStrings = (\<lambda>body present.
         if body = ''[]'' then (Some [], present)
         else if body = ''["x", 1]''
         then (None, case present of [] \<Rightarrow> [] | first # others \<Rightarrow> ''x'' # others)
         else (None, present)),
      unmarshalBool = (\<lambda>body present.
         if body = ''true'' then Some True else if body = ''false'' then Some False
         else if body = ''null'' then Some present else None),
      unmarshalInt = (\<lambda>body present. if body = ''3'' then Some 3 else None)\<rparr>\<close>

definition configReq :: "string \<Rightarrow> string \<Rightarrow> Request" where
  "configReq method bytes =
     \<lparr>Method = method, ContentLength = int (length bytes),
      ReqBody = \<lparr>pending = bytes, broken = False\<rparr>, Query = Some []\<rparr>"

section \<open>Statistics filtering\<close>

lemma selectChannel_no_match:
  "\<forall>c \<in> set cs. ChannelName c \<noteq> C \<Longrightarrow> selectChannel C cs t = t"
  by (induction cs) auto

lemma selectChannel_match:
  "find (\<lambda>c. ChannelName c = C) cs = Some c \<Longrightarrow> selectChannel C cs t = t\<lparr>Channels := [c]\<rparr>"
  by (induction cs) (auto split: if_splits)

lemma selectTopic_match:
  "find (\<lambda>t. TopicName t = T) ts = Some t \<Longrightarrow>
   selectTopic T C ts stats =
     [if length C > 0 then selectChannel C (Channels t) t else t]"
  by (induction ts) (auto split: if_splits)

lemma selectTopic_no_match:
  "find (\<lambda>t. TopicName t = T) ts = None \<Longrightarrow> selectTopic T C ts stats = stats"
  by (induction ts) (auto split: if_splits)

lemma doStats_reply:
  assumes "Query req = Some reqParams"
  shows "\<exists>reply. doStats ctx req = OK reply \<and>
     replyTopics ctx reply
       (filterStats (Values_Get reqParams ''topic'') (Values_Get reqParams ''channel'')
          (getStats ctx))"
  using assms by (simp add: doStats_def Let_def)

text \<open>
  The parts of the filter that work as described: with a topic filter alone the snapshot is
  the entry of that topic; with a channel filter that names one of its channels the entry
  keeps that channel alone, the channel entry itself untouched.
\<close>

lemma filterStats_topic:
  "T \<noteq> [] \<Longrightarrow> find (\<lambda>t. TopicName t = T) stats = Some t \<Longrightarrow> filterStats T [] stats = [t]"
  by (simp add: filterStats_def selectTopic_match)

lemma filterStats_topic_channel:
  "T \<noteq> [] \<Longrightarrow> C \<noteq> [] \<Longrightarrow> find (\<lambda>t. TopicName t = T) stats = Some t \<Longrightarrow>
   find (\<lambda>c. ChannelName c = C) (Channels t) = Some c \<Longrightarrow>
   filterStats T C stats = [t\<lparr>Channels := [c]\<rparr>]"
  by (simp add: filterStats_def selectTopic_match selectChannel_match)

lemma filterStats_unknown_topic:
  "find (\<lambda>t. TopicName t = T) stats = None \<Longrightarrow> filterStats T C stats = stats"
  by (simp add: filterStats_def selectTopic_no_match)

text \<open>
  C8. A topic filter that names no topic does not give an empty snapshot: the loop of
  \<open>doStats\<close> ends without a match and \<open>stats\<close> still holds every topic. Here the snapshot
  has the topics \<open>a\<close> and \<open>b\<close>, the request asks for topic \<open>nope\<close>, and the answer lists
  both \<open>a\<close> and \<open>b\<close>.
\<close>

theorem doStats_unknown_topic_returns_all:
  "doStats statsCtx (statsReq ''nope'' []) =
     OK (StatsJSON ''0.3.6'' ''OK'' 0 [topicA, topicB])"
  by (simp add: doStats_def statsReq_def statsCtx_def Values_Get_def filterStats_def
      topicA_def topicB_def chanX_def chanY_def)

text \<open>
  C10. When the topic filter names a topic of the snapshot and the channel filter names
  none of the channels of that topic, the answer holds that topic alone, with its whole
  channel list: the channel filter has no effect.
\<close>

theorem doStats_unknown_channel_ignored:
  assumes "Query req = Some reqParams"
    and "Values_Get reqParams ''topic'' = T" and "T \<noteq> []"
    and "Values_Get reqParams ''channel'' = C" and "C \<noteq> []"
    and "find (\<lambda>t. TopicName t = T) (getStats ctx) = Some t"
    and "\<forall>c \<in> set (Channels t). ChannelName c \<noteq> C"
  shows "\<exists>reply. doStats ctx req = OK reply \<and> replyTopics ctx reply [t]"
proof -
  have "filterStats T C (getStats ctx) = [t]"
    using assms(3,5,6,7)
    by (simp add: filterStats_def selectTopic_match selectChannel_no_match)
  with doStats_reply [OF assms(1), of ctx] assms(2,4) show ?thesis
    by simp
qed

theorem doStats_unknown_channel_ignored_witness:
  "\<exists>reply. doStats statsCtx (statsReq ''b'' ''x'') = OK reply \<and>
     replyTopics statsCtx reply [topicB]"
  using doStats_unknown_channel_ignored [of "statsReq ''b'' ''x''"
      "[(''format'', [''json'']), (''topic'', [''b'']), (''channel'', [''x''])]"
      "''b''" "''x''" statsCtx topicB]
  by (simp add: statsReq_def statsCtx_def Values_Get_def topicA_def topicB_def chanX_def
      chanY_def)

section \<open>Arithmetic of \<open>readMax\<close>\<close>

lemma int64_id: "is_int64 x \<Longrightarrow> int64 x = x"
  by (simp add: is_int64_def int64_def)

lemma int64_succ:
  assumes "0 \<le> x" and "is_int64 x"
  shows "int64 (x + 1) = x + 1 \<or> int64 (x + 1) < 0"
proof (cases "x + 1 < 2 ^ 63")
  case True
  with assms show ?thesis
    by (simp add: int64_id is_int64_def)
next
  case False
  with assms(2) have "x = 2 ^ 63 - 1"
    by (simp add: is_int64_def)
  then show ?thesis
    by (simp add: int64_def)
qed

section \<open>The TLS gate\<close>

text \<open>
  C6. When TLS is required and this listener is not the TLS one, the request is answered
  with status 403 and \<open>TLS_REQUIRED\<close>; the route table is not called and no byte of the
  body is read. In package \<open>nsqd\<close> the answer carries the HTTPS port; in package
  \<open>nsqdserver\<close> it is the message alone, without a port.
\<close>

theorem ServeHTTP_tls_required:
  assumes "\<not> tlsEnabled s" and "tlsRequired s"
  shows \<open>nsqd_ServeHTTP s httpsPort req =
      \<lparr>answer = OK (Respond 403
         (''{"message": "TLS_REQUIRED", "https_port": '' @ fmt_d httpsPort @ ''}'')),
       calls = [], nread = 0\<rparr>
    \<and> ServeHTTP s req =
      \<lparr>answer = OK (Respond 403 ''{"message": "TLS_REQUIRED"}''), calls = [], nread = 0\<rparr>\<close>
  using assms by (simp add: nsqd_ServeHTTP_def ServeHTTP_def)

theorem ServeHTTP_tls_required_witness:
  \<open>nsqd_ServeHTTP tlsGate 4152 (pubReq 1 ''x'') =
      \<lparr>answer = OK (Respond 403 ''{"message": "TLS_REQUIRED", "https_port": 4152}''),
       calls = [], nread = 0\<rparr>
    \<and> ServeHTTP tlsGate (pubReq 1 ''x'') =
      \<lparr>answer = OK (Respond 403 ''{"message": "TLS_REQUIRED"}''), calls = [], nread = 0\<rparr>\<close>
  using ServeHTTP_tls_required [of tlsGate 4152 "pubReq 1 ''x''"]
  by (simp add: tlsGate_def fmt_d_def decimal.simps)

text \<open>
  The answer of the gate of package \<open>nsqdserver\<close> on a node that requires TLS: it has no
  \<open>https_port\<close> in it.
\<close>

theorem ServeHTTP_answer_without_port:
  \<open>answer (ServeHTTP tlsGate (pubReq 1 ''x'')) = OK (Respond 403 ''{"message": "TLS_REQUIRED"}'')
   \<and> \<not> contains ''https_port'' ''{"message": "TLS_REQUIRED"}''\<close>
  by (simp add: ServeHTTP_def tlsGate_def)

section \<open>The declared length\<close>

lemma nsqd_getTopicFromQuery_not_MSG_EMPTY:
  "nsqd_getTopicFromQuery nctx req \<noteq> Failed (Err 400 ''MSG_EMPTY'')"
  by (simp add: nsqd_getTopicFromQuery_def split: option.splits list.splits)

text \<open>
  C5. A declared length above the ceiling is refused before anything is read:
  \<open>MSG_TOO_BIG\<close> by \<open>doPUB\<close>, \<open>BODY_TOO_BIG\<close> by \<open>doMPUB\<close>, in both packages. A declared
  length of zero or none (\<open>-1\<close>) is refused with \<open>MSG_EMPTY\<close>, nothing read, by the \<open>doPUB\<close>
  of package \<open>nsqdserver\<close>. The \<open>doPUB\<close> of package \<open>nsqd\<close> has no such check: it reads the
  body, up to \<open>MaxMsgSize + 1\<close> bytes, and answers \<open>MSG_EMPTY\<close> exactly when the body has no
  byte.
\<close>

theorem declared_length_checks:
  "(MaxMsgSize (getOpts ctx) < ContentLength req \<longrightarrow>
      doPUB ctx req = \<lparr>answer = Failed (Err 413 ''MSG_TOO_BIG''), calls = [], nread = 0\<rparr>)
   \<and> (MaxMsgSize (nsqd_getOpts nctx) < ContentLength req \<longrightarrow>
      nsqd_doPUB nctx req = \<lparr>answer = Failed (Err 413 ''MSG_TOO_BIG''), calls = [], nread = 0\<rparr>)
   \<and> (MaxBodySize (getOpts ctx) < ContentLength req \<longrightarrow>
      doMPUB ctx req = \<lparr>answer = Failed (Err 413 ''BODY_TOO_BIG''), calls = [], nread = 0\<rparr>)
   \<and> (MaxBodySize (nsqd_getOpts nctx) < ContentLength req \<longrightarrow>
      nsqd_doMPUB nctx req = \<lparr>answer = Failed (Err 413 ''BODY_TOO_BIG''), calls = [], nread = 0\<rparr>)
   \<and> (0 \<le> MaxMsgSize (getOpts ctx) \<and> ContentLength req \<le> 0 \<longrightarrow>
      doPUB ctx req = \<lparr>answer = Failed (Err 400 ''MSG_EMPTY''), calls = [], nread = 0\<rparr>)
   \<and> (0 \<le> MaxMsgSize (nsqd_getOpts nctx) \<and> MaxMsgSize (nsqd_getOpts nctx) + 1 < 2 ^ 63
        \<and> ContentLength req \<le> 0 \<and> \<not> broken (ReqBody req) \<longrightarrow>
      nread (nsqd_doPUB nctx req) =
        min (length (pending (ReqBody req))) (nat (MaxMsgSize (nsqd_getOpts nctx) + 1))
      \<and> (answer (nsqd_doPUB nctx req) = Failed (Err 400 ''MSG_EMPTY'')
           \<longleftrightarrow> pending (ReqBody req) = []))"
proof -
  have nsqd_reads: "nread (nsqd_doPUB nctx req) =
        min (length (pending (ReqBody req))) (nat (MaxMsgSize (nsqd_getOpts nctx) + 1))
      \<and> (answer (nsqd_doPUB nctx req) = Failed (Err 400 ''MSG_EMPTY'')
           \<longleftrightarrow> pending (ReqBody req) = [])"
    if "0 \<le> MaxMsgSize (nsqd_getOpts nctx)" "MaxMsgSize (nsqd_getOpts nctx) + 1 < 2 ^ 63"
      "ContentLength req \<le> 0" "\<not> broken (ReqBody req)"
  proof -
    have "int64 (MaxMsgSize (nsqd_getOpts nctx) + 1) = MaxMsgSize (nsqd_getOpts nctx) + 1"
      using that by (simp add: int64_id is_int64_def)
    then show ?thesis
      using that nsqd_getTopicFromQuery_not_MSG_EMPTY [of nctx req]
      by (auto simp: nsqd_doPUB_def Let_def LimitReader_def ReadAll_def min_def
          split: answer.splits prod.splits)
  qed
  show ?thesis
    using nsqd_reads
    by (simp add: doPUB_def nsqd_doPUB_def doMPUB_def nsqd_doMPUB_def)
qed

theorem declared_length_checks_witness:
  "doPUB (sampleCtx True) (pubReq 11 ''x'')
     = \<lparr>answer = Failed (Err 413 ''MSG_TOO_BIG''), calls = [], nread = 0\<rparr>
   \<and> nsqd_doPUB sampleNsqd (pubReq 11 ''x'')
     = \<lparr>answer = Failed (Err 413 ''MSG_TOO_BIG''), calls = [], nread = 0\<rparr>
   \<and> doMPUB (sampleCtx True) (pubReq 21 ''x'')
     = \<lparr>answer = Failed (Err 413 ''BODY_TOO_BIG''), calls = [], nread = 0\<rparr>
   \<and> nsqd_doMPUB sampleNsqd (pubReq 21 ''x'')
     = \<lparr>answer = Failed (Err 413 ''BODY_TOO_BIG''), calls = [], nread = 0\<rparr>
   \<and> doPUB (sampleCtx True) (pubReq (- 1) ''x'')
     = \<lparr>answer = Failed (Err 400 ''MSG_EMPTY''), calls = [], nread = 0\<rparr>
   \<and> nread (nsqd_doPUB sampleNsqd (pubReq (- 1) ''x'')) = 1
   \<and> answer (nsqd_doPUB sampleNsqd (pubReq (- 1) ''x'')) \<noteq> Failed (Err 400 ''MSG_EMPTY'')"
  using declared_length_checks [of "sampleCtx True" "pubReq 11 ''x''" sampleNsqd]
    declared_length_checks [of "sampleCtx True" "pubReq 21 ''x''" sampleNsqd]
    declared_length_checks [of "sampleCtx True" "pubReq (- 1) ''x''" sampleNsqd]
  by (simp add: sampleCtx_def sampleNsqd_def sampleOpts_def pubReq_def)

text \<open>
  A request to the \<open>doPUB\<close> of package \<open>nsqd\<close> without a declared length and with the body
  \<open>x\<close>: the body is read and the message is published.
\<close>

theorem nsqd_doPUB_reads_without_declared_length:
  "nsqd_doPUB sampleNsqd (pubReq (- 1) ''x'') =
     \<lparr>answer = OK ''OK'',
      calls = [TopicPutMessage \<lparr>GetTopicName = ''t'', GetTopicPart = 0\<rparr> (NewMessage 0 ''x'')],
      nread = 1\<rparr>"
  by (simp add: nsqd_doPUB_def sampleNsqd_def pubReq_def sampleOpts_def int64_def
      LimitReader_def ReadAll_def nsqd_getTopicFromQuery_def)

section \<open>Reading a single message\<close>

lemma doPUB_write_answer_codes:
  "doPUB_write ctx topic body \<noteq> (Failed (Err 413 msg), cs)"
  "doPUB_write ctx topic body \<noteq> (Failed (Err 400 msg), cs)"
  by (simp_all add: doPUB_write_def split: option.splits)

lemma ReadFull_length:
  "ReadFull r len = (n, body, err) \<Longrightarrow> n \<le> len \<and> length body = n"
  by (auto simp: ReadFull_def split: if_splits)

text \<open>
  C2. With a ceiling \<open>MaxMsgSize\<close> that is a non-negative \<open>int64\<close>:
  the \<open>doPUB\<close> of package \<open>nsqd\<close> reads at most \<open>MaxMsgSize + 1\<close> bytes; when it has read
  exactly that many it answers \<open>MSG_TOO_BIG\<close>; when the read gives no byte and no error it
  answers \<open>MSG_EMPTY\<close>; and with either answer it has made no call at all.
  The \<open>doPUB\<close> of package \<open>nsqdserver\<close> reads into a buffer of the declared length, which
  it has checked against the ceiling before: it reads at most \<open>MaxMsgSize\<close> bytes, so it
  never reaches \<open>MaxMsgSize + 1\<close>; a read of no byte, other than by a read error, ends
  with \<open>MSG_EMPTY\<close>; and with either answer its calls hold no put and no forward.
\<close>

theorem doPUB_body_read:
  assumes "0 \<le> MaxMsgSize (getOpts ctx)"
    and "0 \<le> MaxMsgSize (nsqd_getOpts nctx)" and "is_int64 (MaxMsgSize (nsqd_getOpts nctx))"
  shows "int (nread (nsqd_doPUB nctx req)) \<le> MaxMsgSize (nsqd_getOpts nctx) + 1
    \<and> (int (nread (nsqd_doPUB nctx req)) = MaxMsgSize (nsqd_getOpts nctx) + 1 \<longrightarrow>
         answer (nsqd_doPUB nctx req) = Failed (Err 413 ''MSG_TOO_BIG''))
    \<and> (ContentLength req \<le> MaxMsgSize (nsqd_getOpts nctx)
         \<and> ReadAll (LimitReader (ReqBody req) (int64 (MaxMsgSize (nsqd_getOpts nctx) + 1)))
             = ([], None) \<longrightarrow>
         answer (nsqd_doPUB nctx req) = Failed (Err 400 ''MSG_EMPTY''))
    \<and> (answer (nsqd_doPUB nctx req) = Failed (Err 413 ''MSG_TOO_BIG'')
         \<or> answer (nsqd_doPUB nctx req) = Failed (Err 400 ''MSG_EMPTY'') \<longrightarrow>
         calls (nsqd_doPUB nctx req) = [])
    \<and> int (nread (doPUB ctx req)) \<le> MaxMsgSize (getOpts ctx)
    \<and> (0 < ContentLength req \<and> ContentLength req \<le> MaxMsgSize (getOpts ctx)
         \<and> getExistingTopicFromQuery ctx req = Inr (reqParams, topic)
         \<and> ReadFull (LimitReader (ReqBody req) (int64 (ContentLength req + 1)))
              (nat (ContentLength req)) = (n, [], err)
         \<and> err \<noteq> Some ErrOther \<longrightarrow>
         answer (doPUB ctx req) = Failed (Err 400 ''MSG_EMPTY''))
    \<and> (answer (doPUB ctx req) = Failed (Err 413 ''MSG_TOO_BIG'')
         \<or> answer (doPUB ctx req) = Failed (Err 400 ''MSG_EMPTY'') \<longrightarrow>
         filter isWrite (calls (doPUB ctx req)) = [])"
proof -
  let ?M = "MaxMsgSize (nsqd_getOpts nctx)"
  let ?out = "nsqd_doPUB nctx req"
  have wrap: "int64 (?M + 1) = ?M + 1 \<or> int64 (?M + 1) < 0"
    using assms(2,3) by (rule int64_succ)
  have n1: "int (nread ?out) \<le> ?M + 1"
    using assms(2) wrap
    by (auto simp: nsqd_doPUB_def Let_def LimitReader_def ReadAll_def
        split: answer.splits prod.splits)
  have n2: "answer ?out = Failed (Err 413 ''MSG_TOO_BIG'')" if "int (nread ?out) = ?M + 1"
    using that assms(2) wrap
    by (auto simp: nsqd_doPUB_def Let_def LimitReader_def ReadAll_def
        split: answer.splits prod.splits if_splits)
  have n3: "answer ?out = Failed (Err 400 ''MSG_EMPTY'')"
    if "ContentLength req \<le> ?M"
      "ReadAll (LimitReader (ReqBody req) (int64 (?M + 1))) = ([], None)"
    using that assms(2) wrap by (auto simp: nsqd_doPUB_def Let_def)
  have n4: "calls ?out = []"
    if "answer ?out = Failed (Err 413 ''MSG_TOO_BIG'')
        \<or> answer ?out = Failed (Err 400 ''MSG_EMPTY'')"
    using that
    by (auto simp: nsqd_doPUB_def Let_def split: answer.splits prod.splits if_splits)
  let ?S = "MaxMsgSize (getOpts ctx)"
  let ?o = "doPUB ctx req"
  have s0: "int (nread ?o) \<le> ?S"
    using assms(1)
    by (auto simp: doPUB_def Let_def split: sum.splits prod.splits dest!: ReadFull_length)
  have s3: "answer ?o = Failed (Err 400 ''MSG_EMPTY'')"
    if "0 < ContentLength req" "ContentLength req \<le> ?S"
      "getExistingTopicFromQuery ctx req = Inr (reqParams, topic)"
      "ReadFull (LimitReader (ReqBody req) (int64 (ContentLength req + 1)))
              (nat (ContentLength req)) = (n, [], err)"
      "err \<noteq> Some ErrOther"
  proof -
    from that(5) have "err = None \<or> err = Some EOF \<or> err = Some ErrUnexpectedEOF"
      by (cases err) (auto intro: io_error.exhaust)
    with that(1-4) show ?thesis
      by (auto simp: doPUB_def Let_def)
  qed
  have s4: "filter isWrite (calls ?o) = []"
    if "answer ?o = Failed (Err 413 ''MSG_TOO_BIG'') \<or> answer ?o = Failed (Err 400 ''MSG_EMPTY'')"
    using that
    by (auto simp: doPUB_def Let_def isWrite_def doPUB_write_answer_codes
        split: sum.splits prod.splits if_splits)
  show ?thesis
    using n1 n2 n3 n4 s0 s3 s4 by auto
qed

theorem doPUB_body_read_witness:
  "nread (nsqd_doPUB sampleNsqd (pubReq (- 1) ''0123456789A'')) = 11
   \<and> answer (nsqd_doPUB sampleNsqd (pubReq (- 1) ''0123456789A''))
       = Failed (Err 413 ''MSG_TOO_BIG'')
   \<and> calls (nsqd_doPUB sampleNsqd (pubReq (- 1) ''0123456789A'')) = []
   \<and> answer (nsqd_doPUB sampleNsqd (pubReq 0 [])) = Failed (Err 400 ''MSG_EMPTY'')
   \<and> calls (nsqd_doPUB sampleNsqd (pubReq 0 [])) = []
   \<and> answer (doPUB (sampleCtx True) (pubReq 3 [])) = Failed (Err 400 ''MSG_EMPTY'')
   \<and> filter isWrite (calls (doPUB (sampleCtx True) (pubReq 3 []))) = []"
  using doPUB_body_read [where ctx = "sampleCtx True" and nctx = sampleNsqd
      and req = "pubReq (- 1) ''0123456789A''"]
    doPUB_body_read [where ctx = "sampleCtx True" and nctx = sampleNsqd
      and req = "pubReq 0 []"]
    doPUB_body_read [where ctx = "sampleCtx True" and nctx = sampleNsqd
      and req = "pubReq 3 []" and reqParams = "[(''topic'', [''t''])]" and topic = sampleTopic
      and n = 0 and err = "Some EOF"]
  by (simp add: sampleCtx_def sampleNsqd_def sampleOpts_def pubReq_def is_int64_def int64_def
      nsqd_doPUB_def LimitReader_def ReadAll_def ReadFull_def getExistingTopicFromQuery_def
      sampleTopic_def)

section \<open>Routing of a write\<close>

text \<open>
  \<open>doPUB\<close> of package \<open>nsqdserver\<close> routes: once the body is read, a node that is not the
  master of the topic forwards the bytes it read, once, and does not put; a failed
  forward is status 500 with the collaborator's message, a failed local put status 503.
\<close>

lemma doPUB_reaches_write:
  assumes "0 < ContentLength req" and "ContentLength req \<le> MaxMsgSize (getOpts ctx)"
    and "getExistingTopicFromQuery ctx req = Inr (reqParams, topic)"
    and "ReadFull (LimitReader (ReqBody req) (int64 (ContentLength req + 1)))
           (nat (ContentLength req)) = (n, body, err)"
    and "err \<noteq> Some ErrOther" and "body \<noteq> []"
  shows "doPUB ctx req =
     \<lparr>answer = fst (doPUB_write ctx topic body),
      calls = [BufferPoolGet (topicBufferPoolGet ctx topic (ContentLength req))]
              @ snd (doPUB_write ctx topic body)
              @ [BufferPoolPut (topicBufferPoolGet ctx topic (ContentLength req))],
      nread = n\<rparr>"
proof -
  from assms(5) have "err = None \<or> err = Some EOF \<or> err = Some ErrUnexpectedEOF"
    by (cases err) (auto intro: io_error.exhaust)
  with assms(1-4,6) show ?thesis
    by (auto simp: doPUB_def Let_def split: prod.splits)
qed

lemma doPUB_write_forwards:
  assumes "\<not> checkForMasterWrite ctx topic"
  shows "snd (doPUB_write ctx topic body)
      = [ForwardPutMessage (GetTopicName topic) (GetTopicPart topic) body]"
    and "fst (doPUB_write ctx topic body)
      = (case forwardPutMessage ctx (GetTopicName topic) (GetTopicPart topic) body of
           Some msg \<Rightarrow> Failed (Err 500 msg) | None \<Rightarrow> OK ''OK'')"
  using assms by (simp_all add: doPUB_write_def split: option.splits)

lemma doPUB_write_local:
  assumes "checkForMasterWrite ctx topic"
  shows "snd (doPUB_write ctx topic body) = [PutMessage topic body]"
    and "fst (doPUB_write ctx topic body)
      = (case ctxPutMessage ctx topic body of
           Some msg \<Rightarrow> Failed (Err 503 msg) | None \<Rightarrow> OK ''OK'')"
  using assms by (simp_all add: doPUB_write_def split: option.splits)

text \<open>\<open>doMPUB\<close> does not ask who the master is: its write is always the local put.\<close>

lemma doMPUB_write_ignores_ownership:
  "snd (doMPUB_write ctx topic msgs)
     = [PutMessages topic msgs, SetHealth (topicPutMessages ctx topic msgs)]"
  by (simp add: doMPUB_write_def Let_def)

text \<open>
  C1. A batch publish on a node that is not the master of the topic: the node holds the
  topic \<open>t\<close>, \<open>checkForMasterWrite\<close> answers no, and the body is the one line \<open>a\<close>. \<open>doMPUB\<close>
  puts the batch on the local topic and forwards nothing.
\<close>

theorem doMPUB_writes_locally_when_not_master:
  "doMPUB (sampleCtx False) (pubReq 2 [CHR ''a'', newline]) =
     \<lparr>answer = OK ''OK'',
      calls = [NewBufioReader, PutMessages sampleTopic [NewMessage 0 ''a''], SetHealth None,
               PutBufioReader],
      nread = 2\<rparr>"
  by (simp add: doMPUB_def sampleCtx_def pubReq_def sampleOpts_def int64_def
      getExistingTopicFromQuery_def sampleTopic_def mpubText_def LimitReader_def
      mpubTextLoop.simps ReadBytes_def newline_def doMPUB_write_def)

section \<open>The pools\<close>

lemma pool_after_append: "pool_after (xs @ ys) n = pool_after ys (pool_after xs n)"
  by (induction xs arbitrary: n) auto

lemma readers_after_append: "readers_after (xs @ ys) n = readers_after ys (readers_after xs n)"
  by (induction xs arbitrary: n) auto

lemma pool_after_gets: "pool_after (map BufferPoolGet bs) n = n + int (length bs)"
  by (induction bs arbitrary: n) auto

lemma pool_after_puts: "pool_after (map BufferPoolPut bs) n = n - int (length bs)"
  by (induction bs arbitrary: n) auto

lemma readers_after_gets: "readers_after (map BufferPoolGet bs) n = n"
  by (induction bs arbitrary: n) auto

lemma readers_after_puts: "readers_after (map BufferPoolPut bs) n = n"
  by (induction bs arbitrary: n) auto

lemma count_gets:
  "count_list (map BufferPoolGet bs) (BufferPoolGet b) = count_list bs b"
  "count_list (map BufferPoolGet bs) (BufferPoolPut b) = 0"
  "count_list (map BufferPoolPut bs) (BufferPoolPut b) = count_list bs b"
  "count_list (map BufferPoolPut bs) (BufferPoolGet b) = 0"
  by (induction bs) auto

lemma noPool_effects:
  assumes "noPool cs"
  shows "pool_after cs n = n" and "readers_after cs n = n"
    and "count_list cs (BufferPoolGet b) = 0" and "count_list cs (BufferPoolPut b) = 0"
  using assms by (induction cs arbitrary: n; auto simp: noPool_def split: call.splits)+

lemma doPUB_write_noPool: "doPUB_write ctx topic body = (a, cs) \<Longrightarrow> noPool cs"
  by (auto simp: doPUB_write_def noPool_def split: option.splits if_splits)

lemma doMPUB_write_noPool: "doMPUB_write ctx topic msgs = (a, cs) \<Longrightarrow> noPool cs"
  by (auto simp: doMPUB_write_def noPool_def Let_def)

text \<open>The decoder of the binary format hands back the buffers it leases, however it ends.\<close>

lemma readMPUB_frames_leases:
  assumes "mpubCalls sofar = map BufferPoolGet (mpubBuffers sofar)"
  shows "mpubCalls (readMPUB_frames ctx topic maxMsgSize due r sofar)
    = map BufferPoolGet (mpubBuffers (readMPUB_frames ctx topic maxMsgSize due r sofar))"
  using assms
proof (induction due arbitrary: r sofar)
  case 0
  then show ?case
    by simp
next
  case (Suc due)
  show ?case
  proof (cases "readLen r")
    case None
    with Suc.prems show ?thesis
      by simp
  next
    case (Some found)
    obtain len r' where found: "found = (len, r')"
      by (cases found)
    let ?b = "topicBufferPoolGet ctx topic (int len)"
    let ?leased = "sofar\<lparr>mpubBuffers := mpubBuffers sofar @ [?b],
                         mpubCalls := mpubCalls sofar @ [BufferPoolGet ?b]\<rparr>"
    have leased: "mpubCalls (?leased\<lparr>mpubMsgs := ms, mpubRead := n\<rparr>)
        = map BufferPoolGet (mpubBuffers (?leased\<lparr>mpubMsgs := ms, mpubRead := n\<rparr>))" for ms n
      using Suc.prems by simp
    show ?thesis
      using Some found Suc.prems Suc.IH [OF leased]
      by (simp add: Let_def)
  qed
qed

lemma readMPUB_leases:
  "mpubCalls (readMPUB ctx body topic maxMsgSize)
     = map BufferPoolGet (mpubBuffers (readMPUB ctx body topic maxMsgSize))"
  by (auto simp: readMPUB_def readMPUB_frames_leases split: option.splits)

text \<open>
  C9. Whatever the request and however the handler ends (an answer, an error or the
  panic), \<open>doPUB\<close> and \<open>doMPUB\<close> leave both pools as they found them: as many buffers and as
  many readers are checked out after the call as before, and every buffer is put back as
  often as it was leased. In the binary format the leases are those of \<open>readMPUB\<close> as the
  specification describes it.
\<close>

theorem pools_balanced:
  "pool_after (calls (doPUB ctx req)) n = n
    \<and> readers_after (calls (doPUB ctx req)) n = n
    \<and> count_list (calls (doPUB ctx req)) (BufferPoolPut b)
        = count_list (calls (doPUB ctx req)) (BufferPoolGet b)
    \<and> pool_after (calls (doMPUB ctx req)) n = n
    \<and> readers_after (calls (doMPUB ctx req)) n = n
    \<and> count_list (calls (doMPUB ctx req)) (BufferPoolPut b)
        = count_list (calls (doMPUB ctx req)) (BufferPoolGet b)"
proof -
  have pub: "pool_after (calls (doPUB ctx req)) n = n
    \<and> readers_after (calls (doPUB ctx req)) n = n
    \<and> count_list (calls (doPUB ctx req)) (BufferPoolPut b)
        = count_list (calls (doPUB ctx req)) (BufferPoolGet b)"
    by (auto simp: doPUB_def Let_def pool_after_append readers_after_append noPool_effects
        split: sum.splits prod.splits dest!: doPUB_write_noPool)
  have mpub: "pool_after (calls (doMPUB ctx req)) n = n
    \<and> readers_after (calls (doMPUB ctx req)) n = n
    \<and> count_list (calls (doMPUB ctx req)) (BufferPoolPut b)
        = count_list (calls (doMPUB ctx req)) (BufferPoolGet b)"
    by (auto simp: doMPUB_def Let_def pool_after_append readers_after_append noPool_effects
        readMPUB_leases pool_after_gets pool_after_puts readers_after_gets readers_after_puts
        count_gets
        split: sum.splits prod.splits option.splits dest!: doMPUB_write_noPool)
  from pub mpub show ?thesis
    by simp
qed

text \<open>
  The pools on four requests: a binary batch that decodes, a binary batch whose stream
  ends after the first of two payloads, a text batch with a line above the message
  ceiling, and a single publish with an empty body.
\<close>

theorem pools_balanced_witness:
  "doMPUB (sampleCtx True) (binaryReq oneFrame) =
     \<lparr>answer = OK ''OK'',
      calls = [BufferPoolGet 1, PutMessages sampleTopic [NewMessage 0 ''a''], SetHealth None,
               BufferPoolPut 1],
      nread = 9\<rparr>
   \<and> doMPUB (sampleCtx True) (binaryReq cutFrames) =
     \<lparr>answer = Failed (Err 413 ''BAD_MESSAGE''),
      calls = [BufferPoolGet 1, BufferPoolPut 1], nread = 9\<rparr>
   \<and> pool_after (calls (doMPUB (sampleCtx True) (binaryReq cutFrames))) 3 = 3
   \<and> count_list (calls (doMPUB (sampleCtx True) (binaryReq cutFrames))) (BufferPoolPut 1)
       = count_list (calls (doMPUB (sampleCtx True) (binaryReq cutFrames))) (BufferPoolGet 1)
   \<and> readers_after (calls (doMPUB (sampleCtx True) (pubReq 12 ''0123456789A''))) 3 = 3
   \<and> calls (doPUB (sampleCtx True) (pubReq 3 []))
       = [BufferPoolGet 1, BufferPoolPut 1]
   \<and> pool_after (calls (doPUB (sampleCtx True) (pubReq 3 []))) 3 = 3"
proof -
  have decoded: "doMPUB (sampleCtx True) (binaryReq oneFrame) =
     \<lparr>answer = OK ''OK'',
      calls = [BufferPoolGet 1, PutMessages sampleTopic [NewMessage 0 ''a''], SetHealth None,
               BufferPoolPut 1],
      nread = 9\<rparr>"
    by (simp add: doMPUB_def sampleCtx_def binaryReq_def oneFrame_def sampleOpts_def
        getExistingTopicFromQuery_def sampleTopic_def doMPUB_write_def readMPUB_def
        readLen_def)
  have cut: "doMPUB (sampleCtx True) (binaryReq cutFrames) =
     \<lparr>answer = Failed (Err 413 ''BAD_MESSAGE''),
      calls = [BufferPoolGet 1, BufferPoolPut 1], nread = 9\<rparr>"
    by (simp add: doMPUB_def sampleCtx_def binaryReq_def cutFrames_def sampleOpts_def
        getExistingTopicFromQuery_def sampleTopic_def doMPUB_write_def readMPUB_def
        readLen_def)
  have single: "calls (doPUB (sampleCtx True) (pubReq 3 []))
       = [BufferPoolGet 1, BufferPoolPut 1]"
    by (simp add: doPUB_def sampleCtx_def pubReq_def sampleOpts_def int64_def
        getExistingTopicFromQuery_def sampleTopic_def LimitReader_def ReadFull_def)
  from decoded cut single
    pools_balanced [of "sampleCtx True" "binaryReq cutFrames" 3 1]
    pools_balanced [of "sampleCtx True" "pubReq 12 ''0123456789A''" 3 1]
    pools_balanced [of "sampleCtx True" "pubReq 3 []" 3 1]
  show ?thesis
    by simp
qed

section \<open>Runtime options\<close>

lemma doConfig_body:
  assumes "Method req = ''PUT''" and "\<not> broken (ReqBody req)"
    and "0 \<le> MaxMsgSize current" and "MaxMsgSize current + 1 < 2 ^ 63"
    and "pending (ReqBody req) \<noteq> []"
    and "int (length (pending (ReqBody req))) \<le> MaxMsgSize current"
  shows "doConfig env current opt req =
     (case setOption env opt (pending (ReqBody req)) current of
        (Inl e, shared) \<Rightarrow>
          \<lparr>reply = \<lparr>answer = Failed e, calls = [], nread = length (pending (ReqBody req))\<rparr>,
           snapshot = current\<lparr>NSQLookupdTCPAddresses := shared\<rparr>,
           previous = current\<lparr>NSQLookupdTCPAddresses := shared\<rparr>\<rparr>
      | (Inr opts, shared) \<Rightarrow>
          \<lparr>reply = \<lparr>answer = readOption env opts opt,
                    calls = [SwapOpts opts, TriggerOptsNotification],
                    nread = length (pending (ReqBody req))\<rparr>,
           snapshot = opts,
           previous = current\<lparr>NSQLookupdTCPAddresses := shared\<rparr>\<rparr>)"
proof -
  have "int64 (MaxMsgSize current + 1) = MaxMsgSize current + 1"
    using assms(3,4) by (simp add: int64_id is_int64_def)
  with assms show ?thesis
    by (auto simp: doConfig_def ReadAll_def LimitReader_def Let_def split: sum.splits prod.splits)
qed

lemma doConfig_bad_body:
  assumes "Method req = ''PUT''" and "\<not> broken (ReqBody req)"
    and "0 \<le> MaxMsgSize current" and "MaxMsgSize current + 1 < 2 ^ 63"
    and "pending (ReqBody req) = [] \<or> MaxMsgSize current < int (length (pending (ReqBody req)))"
  shows "doConfig env current opt req =
     \<lparr>reply = \<lparr>answer = Failed (Err 413 ''INVALID_VALUE''), calls = [],
               nread = min (length (pending (ReqBody req))) (nat (MaxMsgSize current + 1))\<rparr>,
      snapshot = current, previous = current\<rparr>"
proof -
  have "int64 (MaxMsgSize current + 1) = MaxMsgSize current + 1"
    using assms(3,4) by (simp add: int64_id is_int64_def)
  with assms show ?thesis
    by (auto simp: doConfig_def ReadAll_def LimitReader_def Let_def min_def)
qed

text \<open>
  C7. A \<open>PUT\<close> on a node whose ceiling \<open>MaxMsgSize\<close> is a non-negative \<open>int64\<close> below the
  largest one, with a body that is read without a read error, where the struct tags the
  three writable fields with their configuration names.

  The body is checked first: an empty body, or one longer than \<open>MaxMsgSize\<close> (the read
  then reaches \<open>MaxMsgSize + 1\<close> bytes), is \<open>INVALID_VALUE\<close> whatever the option, and the
  snapshot is the one before. With a body that passes: for each of the three writable
  options, a body that \<open>json.Unmarshal\<close> decodes makes the snapshot the old one with that
  field replaced, the swap is followed by the notification, the value answered is the new
  one, and a later read of the option answers it too; a body that \<open>json.Unmarshal\<close>
  rejects is \<open>INVALID_VALUE\<close>; any other option is \<open>INVALID_OPTION\<close>. Whenever the answer
  is an error, neither swap nor notification took place, the context holds the snapshot
  it held before, and that snapshot is as it was in every field other than the address
  list; after a failed \<open>PUT\<close> of an option other than the address list it is as it was in
  every field.
\<close>

theorem doConfig_put:
  assumes "Method req = ''PUT''" and "\<not> broken (ReqBody req)"
    and "0 \<le> MaxMsgSize current" and "MaxMsgSize current + 1 < 2 ^ 63"
    and "writableTagged env"
    and "Method later \<noteq> ''PUT''"
  shows
    "(pending (ReqBody req) = [] \<or> MaxMsgSize current < int (length (pending (ReqBody req))) \<longrightarrow>
        doConfig env current opt req =
          \<lparr>reply = \<lparr>answer = Failed (Err 413 ''INVALID_VALUE''), calls = [],
                    nread = min (length (pending (ReqBody req))) (nat (MaxMsgSize current + 1))\<rparr>,
           snapshot = current, previous = current\<rparr>)
     \<and> (pending (ReqBody req) \<noteq> [] \<and> int (length (pending (ReqBody req))) \<le> MaxMsgSize current \<longrightarrow>
       (unmarshalStrings env (pending (ReqBody req)) (NSQLookupdTCPAddresses current)
            = (Some addrs, shared) \<longrightarrow>
          reply (doConfig env current ''nsqlookupd_tcp_addresses'' req) =
            \<lparr>answer = OK (VStrings addrs),
             calls = [SwapOpts (current\<lparr>NSQLookupdTCPAddresses := addrs\<rparr>),
                      TriggerOptsNotification],
             nread = length (pending (ReqBody req))\<rparr>
          \<and> snapshot (doConfig env current ''nsqlookupd_tcp_addresses'' req)
              = current\<lparr>NSQLookupdTCPAddresses := addrs\<rparr>
          \<and> answer (reply (doConfig env (current\<lparr>NSQLookupdTCPAddresses := addrs\<rparr>)
                ''nsqlookupd_tcp_addresses'' later)) = OK (VStrings addrs))
       \<and> (unmarshalBool env (pending (ReqBody req)) (Verbose current) = Some flag \<longrightarrow>
          doConfig env current ''verbose'' req =
            \<lparr>reply = \<lparr>answer = OK (VBool flag),
                      calls = [SwapOpts (current\<lparr>Verbose := flag\<rparr>), TriggerOptsNotification],
                      nread = length (pending (ReqBody req))\<rparr>,
             snapshot = current\<lparr>Verbose := flag\<rparr>, previous = current\<rparr>
          \<and> answer (reply (doConfig env (current\<lparr>Verbose := flag\<rparr>) ''verbose'' later))
              = OK (VBool flag))
       \<and> (unmarshalInt env (pending (ReqBody req)) (LogLevel current) = Some level \<longrightarrow>
          doConfig env current ''log_level'' req =
            \<lparr>reply = \<lparr>answer = OK (VInt level),
                      calls = [SwapOpts (current\<lparr>LogLevel := level\<rparr>), TriggerOptsNotification],
                      nread = length (pending (ReqBody req))\<rparr>,
             snapshot = current\<lparr>LogLevel := level\<rparr>, previous = current\<rparr>
          \<and> answer (reply (doConfig env (current\<lparr>LogLevel := level\<rparr>) ''log_level'' later))
              = OK (VInt level))
       \<and> (fst (unmarshalStrings env (pending (ReqBody req)) (NSQLookupdTCPAddresses current))
            = None \<longrightarrow>
          reply (doConfig env current ''nsqlookupd_tcp_addresses'' req) =
            \<lparr>answer = Failed (Err 400 ''INVALID_VALUE''), calls = [],
             nread = length (pending (ReqBody req))\<rparr>)
       \<and> (unmarshalBool env (pending (ReqBody req)) (Verbose current) = None \<longrightarrow>
          doConfig env current ''verbose'' req =
            \<lparr>reply = \<lparr>answer = Failed (Err 400 ''INVALID_VALUE''), calls = [],
                      nread = length (pending (ReqBody req))\<rparr>,
             snapshot = current, previous = current\<rparr>)
       \<and> (unmarshalInt env (pending (ReqBody req)) (LogLevel current) = None \<longrightarrow>
          doConfig env current ''log_level'' req =
            \<lparr>reply = \<lparr>answer = Failed (Err 400 ''INVALID_VALUE''), calls = [],
                      nread = length (pending (ReqBody req))\<rparr>,
             snapshot = current, previous = current\<rparr>)
       \<and> (opt \<noteq> ''nsqlookupd_tcp_addresses'' \<and> opt \<noteq> ''verbose'' \<and> opt \<noteq> ''log_level'' \<longrightarrow>
          doConfig env current opt req =
            \<lparr>reply = \<lparr>answer = Failed (Err 400 ''INVALID_OPTION''), calls = [],
                      nread = length (pending (ReqBody req))\<rparr>,
             snapshot = current, previous = current\<rparr>))
     \<and> (answer (reply (doConfig env current opt req)) = Failed e \<longrightarrow>
          calls (reply (doConfig env current opt req)) = []
          \<and> snapshot (doConfig env current opt req) = previous (doConfig env current opt req)
          \<and> (snapshot (doConfig env current opt req))
               \<lparr>NSQLookupdTCPAddresses := NSQLookupdTCPAddresses current\<rparr> = current
          \<and> (opt \<noteq> ''nsqlookupd_tcp_addresses'' \<longrightarrow>
               snapshot (doConfig env current opt req) = current))"
proof -
  have tags: "getOptByCfgName (optionsType env) opts ''nsqlookupd_tcp_addresses''
          = Some (VStrings (NSQLookupdTCPAddresses opts))"
     "getOptByCfgName (optionsType env) opts ''verbose'' = Some (VBool (Verbose opts))"
     "getOptByCfgName (optionsType env) opts ''log_level'' = Some (VInt (LogLevel opts))"
    for opts
    using assms(5) by (simp_all add: writableTagged_def)
  have good: "doConfig env current opt req =
     (case setOption env opt (pending (ReqBody req)) current of
        (Inl e, shared) \<Rightarrow>
          \<lparr>reply = \<lparr>answer = Failed e, calls = [], nread = length (pending (ReqBody req))\<rparr>,
           snapshot = current\<lparr>NSQLookupdTCPAddresses := shared\<rparr>,
           previous = current\<lparr>NSQLookupdTCPAddresses := shared\<rparr>\<rparr>
      | (Inr opts, shared) \<Rightarrow>
          \<lparr>reply = \<lparr>answer = readOption env opts opt,
                    calls = [SwapOpts opts, TriggerOptsNotification],
                    nread = length (pending (ReqBody req))\<rparr>,
           snapshot = opts,
           previous = current\<lparr>NSQLookupdTCPAddresses := shared\<rparr>\<rparr>)"
    if "pending (ReqBody req) \<noteq> []" "int (length (pending (ReqBody req))) \<le> MaxMsgSize current"
    for opt
    using assms(1-4) that by (rule doConfig_body)
  have bad: "doConfig env current opt req =
     \<lparr>reply = \<lparr>answer = Failed (Err 413 ''INVALID_VALUE''), calls = [],
               nread = min (length (pending (ReqBody req))) (nat (MaxMsgSize current + 1))\<rparr>,
      snapshot = current, previous = current\<rparr>"
    if "pending (ReqBody req) = [] \<or> MaxMsgSize current < int (length (pending (ReqBody req)))"
    using assms(1-4) that by (rule doConfig_bad_body)
  have later: "answer (reply (doConfig env opts name later)) = readOption env opts name"
    for opts name
    using assms(6) by (simp add: doConfig_def)
  let ?body = "pending (ReqBody req)"
  let ?n = "length (pending (ReqBody req))"
  let ?passes = "?body \<noteq> [] \<and> int ?n \<le> MaxMsgSize current"
  have refused: "?body = [] \<or> MaxMsgSize current < int ?n \<longrightarrow>
        doConfig env current opt req =
          \<lparr>reply = \<lparr>answer = Failed (Err 413 ''INVALID_VALUE''), calls = [],
                    nread = min ?n (nat (MaxMsgSize current + 1))\<rparr>,
           snapshot = current, previous = current\<rparr>"
    using bad by blast
  have addresses: "reply (doConfig env current ''nsqlookupd_tcp_addresses'' req) =
            \<lparr>answer = OK (VStrings addrs),
             calls = [SwapOpts (current\<lparr>NSQLookupdTCPAddresses := addrs\<rparr>),
                      TriggerOptsNotification],
             nread = ?n\<rparr>
          \<and> snapshot (doConfig env current ''nsqlookupd_tcp_addresses'' req)
              = current\<lparr>NSQLookupdTCPAddresses := addrs\<rparr>
          \<and> answer (reply (doConfig env (current\<lparr>NSQLookupdTCPAddresses := addrs\<rparr>)
                ''nsqlookupd_tcp_addresses'' later)) = OK (VStrings addrs)"
    if ?passes "unmarshalStrings env ?body (NSQLookupdTCPAddresses current) = (Some addrs, shared)"
    using that good [of "''nsqlookupd_tcp_addresses''"]
    by (simp add: setOption_def readOption_def tags later)
  have verbose: "doConfig env current ''verbose'' req =
            \<lparr>reply = \<lparr>answer = OK (VBool flag),
                      calls = [SwapOpts (current\<lparr>Verbose := flag\<rparr>), TriggerOptsNotification],
                      nread = ?n\<rparr>,
             snapshot = current\<lparr>Verbose := flag\<rparr>, previous = current\<rparr>
          \<and> answer (reply (doConfig env (current\<lparr>Verbose := flag\<rparr>) ''verbose'' later))
              = OK (VBool flag)"
    if ?passes "unmarshalBool env ?body (Verbose current) = Some flag"
    using that good [of "''verbose''"]
    by (simp add: setOption_def readOption_def tags later)
  have log_level: "doConfig env current ''log_level'' req =
            \<lparr>reply = \<lparr>answer = OK (VInt level),
                      calls = [SwapOpts (current\<lparr>LogLevel := level\<rparr>), TriggerOptsNotification],
                      nread = ?n\<rparr>,
             snapshot = current\<lparr>LogLevel := level\<rparr>, previous = current\<rparr>
          \<and> answer (reply (doConfig env (current\<lparr>LogLevel := level\<rparr>) ''log_level'' later))
              = OK (VInt level)"
    if ?passes "unmarshalInt env ?body (LogLevel current) = Some level"
    using that good [of "''log_level''"]
    by (simp add: setOption_def readOption_def tags later)
  have no_addresses: "reply (doConfig env current ''nsqlookupd_tcp_addresses'' req) =
            \<lparr>answer = Failed (Err 400 ''INVALID_VALUE''), calls = [], nread = ?n\<rparr>"
    if ?passes "fst (unmarshalStrings env ?body (NSQLookupdTCPAddresses current)) = None"
    using that good [of "''nsqlookupd_tcp_addresses''"]
    by (cases "unmarshalStrings env ?body (NSQLookupdTCPAddresses current)")
      (simp add: setOption_def)
  have no_verbose: "doConfig env current ''verbose'' req =
            \<lparr>reply = \<lparr>answer = Failed (Err 400 ''INVALID_VALUE''), calls = [], nread = ?n\<rparr>,
             snapshot = current, previous = current\<rparr>"
    if ?passes "unmarshalBool env ?body (Verbose current) = None"
    using that good [of "''verbose''"]
    by (simp add: setOption_def)
  have no_log_level: "doConfig env current ''log_level'' req =
            \<lparr>reply = \<lparr>answer = Failed (Err 400 ''INVALID_VALUE''), calls = [], nread = ?n\<rparr>,
             snapshot = current, previous = current\<rparr>"
    if ?passes "unmarshalInt env ?body (LogLevel current) = None"
    using that good [of "''log_level''"]
    by (simp add: setOption_def)
  have other: "doConfig env current opt req =
            \<lparr>reply = \<lparr>answer = Failed (Err 400 ''INVALID_OPTION''), calls = [], nread = ?n\<rparr>,
             snapshot = current, previous = current\<rparr>"
    if ?passes "opt \<noteq> ''nsqlookupd_tcp_addresses''" "opt \<noteq> ''verbose''" "opt \<noteq> ''log_level''"
    using that good [of opt]
    by (simp add: setOption_def)
  have failed: "calls (reply (doConfig env current opt req)) = []
          \<and> snapshot (doConfig env current opt req) = previous (doConfig env current opt req)
          \<and> (snapshot (doConfig env current opt req))
               \<lparr>NSQLookupdTCPAddresses := NSQLookupdTCPAddresses current\<rparr> = current
          \<and> (opt \<noteq> ''nsqlookupd_tcp_addresses'' \<longrightarrow>
               snapshot (doConfig env current opt req) = current)"
    if failure: "answer (reply (doConfig env current opt req)) = Failed e"
  proof (cases ?passes)
    case False
    then have "?body = [] \<or> MaxMsgSize current < int ?n"
      by auto
    from bad [OF this] show ?thesis
      by simp
  next
    case True
    then have run: "doConfig env current opt req =
       (case setOption env opt ?body current of
          (Inl e, shared) \<Rightarrow>
            \<lparr>reply = \<lparr>answer = Failed e, calls = [], nread = ?n\<rparr>,
             snapshot = current\<lparr>NSQLookupdTCPAddresses := shared\<rparr>,
             previous = current\<lparr>NSQLookupdTCPAddresses := shared\<rparr>\<rparr>
        | (Inr opts, shared) \<Rightarrow>
            \<lparr>reply = \<lparr>answer = readOption env opts opt,
                      calls = [SwapOpts opts, TriggerOptsNotification], nread = ?n\<rparr>,
             snapshot = opts,
             previous = current\<lparr>NSQLookupdTCPAddresses := shared\<rparr>\<rparr>)"
      using good [of opt] by simp
    obtain result shared where switch: "setOption env opt ?body current = (result, shared)"
      by (cases "setOption env opt ?body current")
    have unshared: "shared = NSQLookupdTCPAddresses current"
      if "opt \<noteq> ''nsqlookupd_tcp_addresses''"
      using that switch by (auto simp: setOption_def split: if_splits option.splits)
    show ?thesis
    proof (cases result)
      case (Inl err)
      with run switch unshared show ?thesis
        by simp
    next
      case (Inr opts)
      with switch have "readOption env opts opt \<noteq> Failed e"
        by (auto simp: setOption_def readOption_def tags
            split: if_splits option.splits prod.splits)
      with failure run switch Inr show ?thesis
        by simp
    qed
  qed
  from refused addresses verbose log_level no_addresses no_verbose no_log_level other failed
  show ?thesis
    by blast
qed

theorem doConfig_put_witness:
  "writableTagged sampleEnv
   \<and> doConfig sampleEnv sampleOpts ''verbose'' (configReq ''PUT'' ''true'') =
       \<lparr>reply = \<lparr>answer = OK (VBool True),
                 calls = [SwapOpts (sampleOpts\<lparr>Verbose := True\<rparr>), TriggerOptsNotification],
                 nread = 4\<rparr>,
        snapshot = sampleOpts\<lparr>Verbose := True\<rparr>, previous = sampleOpts\<rparr>
   \<and> answer (reply (doConfig sampleEnv (sampleOpts\<lparr>Verbose := True\<rparr>) ''verbose''
         (configReq ''GET'' []))) = OK (VBool True)
   \<and> doConfig sampleEnv sampleOpts ''verbose'' (configReq ''PUT'' ''maybe'') =
       \<lparr>reply = \<lparr>answer = Failed (Err 400 ''INVALID_VALUE''), calls = [], nread = 5\<rparr>,
        snapshot = sampleOpts, previous = sampleOpts\<rparr>
   \<and> doConfig sampleEnv sampleOpts ''max_msg_size'' (configReq ''PUT'' ''7'') =
       \<lparr>reply = \<lparr>answer = Failed (Err 400 ''INVALID_OPTION''), calls = [], nread = 1\<rparr>,
        snapshot = sampleOpts, previous = sampleOpts\<rparr>
   \<and> doConfig sampleEnv sampleOpts ''verbose'' (configReq ''PUT'' []) =
       \<lparr>reply = \<lparr>answer = Failed (Err 413 ''INVALID_VALUE''), calls = [], nread = 0\<rparr>,
        snapshot = sampleOpts, previous = sampleOpts\<rparr>"
proof -
  have tagged: "writableTagged sampleEnv"
    by (simp add: writableTagged_def sampleEnv_def dashToUnderscore_def)
  have put: "Method (configReq ''PUT'' bytes) = ''PUT''"
    "\<not> broken (ReqBody (configReq ''PUT'' bytes))"
    "pending (ReqBody (configReq ''PUT'' bytes)) = bytes" for bytes
    by (simp_all add: configReq_def)
  have get: "Method (configReq ''GET'' []) \<noteq> ''PUT''"
    by (simp add: configReq_def)
  have sizes: "0 \<le> MaxMsgSize sampleOpts" "MaxMsgSize sampleOpts + 1 < 2 ^ 63"
    "MaxMsgSize sampleOpts = 10"
    by (simp_all add: sampleOpts_def)
  note inst = doConfig_put [OF put(1,2) sizes(1,2) tagged get]
  from inst [where bytes1 = "''true''" and flag = True]
  have a: "doConfig sampleEnv sampleOpts ''verbose'' (configReq ''PUT'' ''true'') =
       \<lparr>reply = \<lparr>answer = OK (VBool True),
                 calls = [SwapOpts (sampleOpts\<lparr>Verbose := True\<rparr>), TriggerOptsNotification],
                 nread = 4\<rparr>,
        snapshot = sampleOpts\<lparr>Verbose := True\<rparr>, previous = sampleOpts\<rparr>"
    and b: "answer (reply (doConfig sampleEnv (sampleOpts\<lparr>Verbose := True\<rparr>) ''verbose''
         (configReq ''GET'' []))) = OK (VBool True)"
    by (simp_all add: put(3) sizes(3) sampleEnv_def sampleOpts_def)
  from inst [where bytes1 = "''maybe''"]
  have c: "doConfig sampleEnv sampleOpts ''verbose'' (configReq ''PUT'' ''maybe'') =
       \<lparr>reply = \<lparr>answer = Failed (Err 400 ''INVALID_VALUE''), calls = [], nread = 5\<rparr>,
        snapshot = sampleOpts, previous = sampleOpts\<rparr>"
    by (simp add: put(3) sizes(3) sampleEnv_def sampleOpts_def)
  from inst [where bytes1 = "''7''" and opt = "''max_msg_size''"]
  have d: "doConfig sampleEnv sampleOpts ''max_msg_size'' (configReq ''PUT'' ''7'') =
       \<lparr>reply = \<lparr>answer = Failed (Err 400 ''INVALID_OPTION''), calls = [], nread = 1\<rparr>,
        snapshot = sampleOpts, previous = sampleOpts\<rparr>"
    by (simp add: put(3) sizes(3))
  from inst [where bytes1 = "[]" and opt = "''verbose''"]
  have e: "doConfig sampleEnv sampleOpts ''verbose'' (configReq ''PUT'' []) =
       \<lparr>reply = \<lparr>answer = Failed (Err 413 ''INVALID_VALUE''), calls = [], nread = 0\<rparr>,
        snapshot = sampleOpts, previous = sampleOpts\<rparr>"
    by (simp add: put(3))
  from tagged a b c d e show ?thesis
    by simp
qed

text \<open>
  A \<open>PUT\<close> that names an option outside the three, with an empty body: the body is
  refused first, and the answer is \<open>INVALID_VALUE\<close> with status 413, not \<open>INVALID_OPTION\<close>.
\<close>

theorem doConfig_empty_body_unknown_option:
  "reply (doConfig sampleEnv sampleOpts ''max_msg_size'' (configReq ''PUT'' [])) =
     \<lparr>answer = Failed (Err 413 ''INVALID_VALUE''), calls = [], nread = 0\<rparr>"
  by (simp add: doConfig_def configReq_def sampleOpts_def int64_def LimitReader_def ReadAll_def)

text \<open>
  What the shared array does on a failed decode of the address list: with the addresses
  \<open>a\<close>, \<open>b\<close> and the body \<open>["x", 1]\<close> the answer is \<open>INVALID_VALUE\<close>, nothing is swapped,
  and the snapshot the context holds now reads \<open>x\<close>, \<open>b\<close>.
\<close>

lemma doConfig_failed_decode_writes_shared_array:
  \<open>doConfig sampleEnv (sampleOpts\<lparr>NSQLookupdTCPAddresses := [''a'', ''b'']\<rparr>)
       ''nsqlookupd_tcp_addresses'' (configReq ''PUT'' ''["x", 1]'') =
     \<lparr>reply = \<lparr>answer = Failed (Err 400 ''INVALID_VALUE''), calls = [], nread = 8\<rparr>,
      snapshot = sampleOpts\<lparr>NSQLookupdTCPAddresses := [''x'', ''b'']\<rparr>,
      previous = sampleOpts\<lparr>NSQLookupdTCPAddresses := [''x'', ''b'']\<rparr>\<rparr>\<close>
  by (simp add: doConfig_def configReq_def sampleOpts_def int64_def LimitReader_def ReadAll_def
      setOption_def sampleEnv_def)

section \<open>The text batch format\<close>

lemma chunks_no_newline: "newline \<notin> set xs \<Longrightarrow> chunks xs = [xs]"
  by (induction xs) auto

lemma split_at_newline:
  assumes "newline \<in> set xs"
  shows "xs = takeWhile (\<lambda>c. c \<noteq> newline) xs @ newline # tl (dropWhile (\<lambda>c. c \<noteq> newline) xs)"
proof -
  from assms have "dropWhile (\<lambda>c. c \<noteq> newline) xs \<noteq> []"
    by simp
  moreover from this have "hd (dropWhile (\<lambda>c. c \<noteq> newline) xs) = newline"
    using hd_dropWhile [of "\<lambda>c. c \<noteq> newline" xs] by simp
  ultimately have "dropWhile (\<lambda>c. c \<noteq> newline) xs
      = newline # tl (dropWhile (\<lambda>c. c \<noteq> newline) xs)"
    by (cases "dropWhile (\<lambda>c. c \<noteq> newline) xs") simp_all
  then show ?thesis
    using takeWhile_dropWhile_id [of "\<lambda>c. c \<noteq> newline" xs] by simp
qed

lemma chunks_append_newline:
  "newline \<notin> set tw \<Longrightarrow> chunks (tw @ newline # rest) = tw # chunks rest"
  by (induction tw) (auto split: list.splits)

lemma chunks_newline:
  assumes "newline \<in> set xs"
  shows "chunks xs = takeWhile (\<lambda>c. c \<noteq> newline) xs
           # chunks (tl (dropWhile (\<lambda>c. c \<noteq> newline) xs))"
proof -
  have "newline \<notin> set (takeWhile (\<lambda>c. c \<noteq> newline) xs)"
    by (auto dest: set_takeWhileD)
  then have "chunks (takeWhile (\<lambda>c. c \<noteq> newline) xs
        @ newline # tl (dropWhile (\<lambda>c. c \<noteq> newline) xs))
      = takeWhile (\<lambda>c. c \<noteq> newline) xs # chunks (tl (dropWhile (\<lambda>c. c \<noteq> newline) xs))"
    by (rule chunks_append_newline)
  with split_at_newline [OF assms] show ?thesis
    by simp
qed

lemma length_split_at_newline:
  assumes "newline \<in> set xs"
  shows "length xs = length (takeWhile (\<lambda>c. c \<noteq> newline) xs) + 1
           + length (tl (dropWhile (\<lambda>c. c \<noteq> newline) xs))"
proof -
  have "length xs = length (takeWhile (\<lambda>c. c \<noteq> newline) xs
        @ newline # tl (dropWhile (\<lambda>c. c \<noteq> newline) xs))"
    using split_at_newline [OF assms] by simp
  then show ?thesis
    by simp
qed

lemma loop_found:
  assumes "newline \<in> set xs"
  shows "mpubTextLoop M R \<lparr>pending = xs, broken = b\<rparr> tot msgs =
     (let tw = takeWhile (\<lambda>c. c \<noteq> newline) xs;
          rest = \<lparr>pending = tl (dropWhile (\<lambda>c. c \<noteq> newline) xs), broken = b\<rparr>;
          tot' = tot + int (length tw) + 1
      in if tot' = R then (Inl (Err 413 ''BODY_TOO_BIG''), rest)
         else if tw = [] then mpubTextLoop M R rest tot' msgs
         else if M < int (length tw) then (Inl (Err 413 ''MSG_TOO_BIG''), rest)
         else mpubTextLoop M R rest tot' (msgs @ [NewMessage 0 tw]))"
  using assms
  by (subst mpubTextLoop.simps) (simp add: ReadBytes_def Let_def add.commute add.left_commute)

lemma loop_end:
  assumes "newline \<notin> set xs"
  shows "mpubTextLoop M R \<lparr>pending = xs, broken = b\<rparr> tot msgs =
     (if b then (Inl (Err 500 ''INTERNAL_ERROR''), \<lparr>pending = [], broken = b\<rparr>)
      else if tot + int (length xs) = R
      then (Inl (Err 413 ''BODY_TOO_BIG''), \<lparr>pending = [], broken = b\<rparr>)
      else if xs = [] then (Inr msgs, \<lparr>pending = [], broken = b\<rparr>)
      else if M < int (length xs) then (Inl (Err 413 ''MSG_TOO_BIG''), \<lparr>pending = [], broken = b\<rparr>)
      else (Inr (msgs @ [NewMessage 0 xs]), \<lparr>pending = [], broken = b\<rparr>))"
proof -
  have "last xs \<noteq> newline" if "xs \<noteq> []"
  proof
    assume "last xs = newline"
    with last_in_set [OF that] have "newline \<in> set xs"
      by simp
    with assms show False
      by simp
  qed
  then show ?thesis
    using assms
    by (subst mpubTextLoop.simps) (auto simp: ReadBytes_def Let_def)
qed


lemma loop_decodes:
  assumes "\<forall>l \<in> set (chunks xs). int (length l) \<le> M" and "tot + int (length xs) < R"
  shows "mpubTextLoop M R \<lparr>pending = xs, broken = False\<rparr> tot msgs =
     (Inr (msgs @ map (NewMessage 0) (filter (\<lambda>l. l \<noteq> []) (chunks xs))),
      \<lparr>pending = [], broken = False\<rparr>)"
  using assms
proof (induction "length xs" arbitrary: xs tot msgs rule: less_induct)
  case less
  show ?case
  proof (cases "newline \<in> set xs")
    case True
    let ?tw = "takeWhile (\<lambda>c. c \<noteq> newline) xs"
    let ?rest = "tl (dropWhile (\<lambda>c. c \<noteq> newline) xs)"
    have len: "length xs = length ?tw + 1 + length ?rest"
      using True by (rule length_split_at_newline)
    have ch: "chunks xs = ?tw # chunks ?rest"
      using True by (rule chunks_newline)
    have "mpubTextLoop M R \<lparr>pending = ?rest, broken = False\<rparr> (tot + int (length ?tw) + 1) ms =
       (Inr (ms @ map (NewMessage 0) (filter (\<lambda>l. l \<noteq> []) (chunks ?rest))),
        \<lparr>pending = [], broken = False\<rparr>)" for ms
      using less.prems len ch by (intro less.hyps) auto
    moreover have "int (length ?tw) \<le> M" "tot + int (length ?tw) + 1 \<noteq> R"
      using less.prems len ch by auto
    ultimately show ?thesis
      using True ch by (auto simp: loop_found Let_def)
  next
    case False
    with less.prems show ?thesis
      by (simp add: loop_end chunks_no_newline)
  qed
qed

lemma loop_rejects_long_chunk:
  assumes "\<exists>l \<in> set (chunks xs). l \<noteq> [] \<and> M < int (length l)" and "tot + int (length xs) < R"
  shows "fst (mpubTextLoop M R \<lparr>pending = xs, broken = False\<rparr> tot msgs) =
     Inl (Err 413 ''MSG_TOO_BIG'')"
  using assms
proof (induction "length xs" arbitrary: xs tot msgs rule: less_induct)
  case less
  show ?case
  proof (cases "newline \<in> set xs")
    case True
    let ?tw = "takeWhile (\<lambda>c. c \<noteq> newline) xs"
    let ?rest = "tl (dropWhile (\<lambda>c. c \<noteq> newline) xs)"
    have len: "length xs = length ?tw + 1 + length ?rest"
      using True by (rule length_split_at_newline)
    have ch: "chunks xs = ?tw # chunks ?rest"
      using True by (rule chunks_newline)
    have here: "tot + int (length ?tw) + 1 \<noteq> R"
      using less.prems len by auto
    show ?thesis
    proof (cases "?tw \<noteq> [] \<and> M < int (length ?tw)")
      case True
      with \<open>newline \<in> set xs\<close> here show ?thesis
        by (simp add: loop_found Let_def)
    next
      case False
      with less.prems(1) ch
      have later: "\<exists>l \<in> set (chunks ?rest). l \<noteq> [] \<and> M < int (length l)"
        by auto
      have "fst (mpubTextLoop M R \<lparr>pending = ?rest, broken = False\<rparr>
              (tot + int (length ?tw) + 1) ms) = Inl (Err 413 ''MSG_TOO_BIG'')" for ms
        using later less.prems(2) len by (intro less.hyps) auto
      with \<open>newline \<in> set xs\<close> here False show ?thesis
        by (auto simp: loop_found Let_def)
    qed
  next
    case False
    with less.prems show ?thesis
      by (auto simp: loop_end chunks_no_newline)
  qed
qed

lemma loop_full_fails:
  assumes "tot + int (length xs) = R"
  shows "fst (mpubTextLoop M R \<lparr>pending = xs, broken = False\<rparr> tot msgs) = Inl (Err 413 ''BODY_TOO_BIG'')
    \<or> fst (mpubTextLoop M R \<lparr>pending = xs, broken = False\<rparr> tot msgs) = Inl (Err 413 ''MSG_TOO_BIG'')"
  using assms
proof (induction "length xs" arbitrary: xs tot msgs rule: less_induct)
  case less
  show ?case
  proof (cases "newline \<in> set xs")
    case True
    let ?tw = "takeWhile (\<lambda>c. c \<noteq> newline) xs"
    let ?rest = "tl (dropWhile (\<lambda>c. c \<noteq> newline) xs)"
    have len: "length xs = length ?tw + 1 + length ?rest"
      using True by (rule length_split_at_newline)
    have IH: "fst (mpubTextLoop M R \<lparr>pending = ?rest, broken = False\<rparr>
              (tot + int (length ?tw) + 1) ms) = Inl (Err 413 ''BODY_TOO_BIG'')
       \<or> fst (mpubTextLoop M R \<lparr>pending = ?rest, broken = False\<rparr>
              (tot + int (length ?tw) + 1) ms) = Inl (Err 413 ''MSG_TOO_BIG'')" for ms
      using less.prems len by (intro less.hyps) auto
    show ?thesis
      using True IH [of msgs] IH [of "msgs @ [NewMessage 0 ?tw]"]
      by (auto simp: loop_found Let_def)
  next
    case False
    with less.prems show ?thesis
      by (simp add: loop_end)
  qed
qed

lemma loop_consumed:
  assumes "mpubTextLoop M R \<lparr>pending = xs, broken = b\<rparr> tot msgs = (r, rdr')"
    and "b \<longrightarrow> tot + int (length xs) < R"
  shows "length (pending rdr') \<le> length xs
    \<and> (tot + int (length xs) - int (length (pending rdr')) = R \<longrightarrow>
         r = Inl (Err 413 ''BODY_TOO_BIG''))"
  using assms
proof (induction "length xs" arbitrary: xs tot msgs rule: less_induct)
  case less
  show ?case
  proof (cases "newline \<in> set xs")
    case True
    define tw where "tw = takeWhile (\<lambda>c. c \<noteq> newline) xs"
    define rest where "rest = tl (dropWhile (\<lambda>c. c \<noteq> newline) xs)"
    define tot' where "tot' = tot + int (length tw) + 1"
    have len: "length xs = length tw + 1 + length rest"
      using True unfolding tw_def rest_def by (rule length_split_at_newline)
    have step: "mpubTextLoop M R \<lparr>pending = xs, broken = b\<rparr> tot msgs =
       (if tot' = R then (Inl (Err 413 ''BODY_TOO_BIG''), \<lparr>pending = rest, broken = b\<rparr>)
        else if tw = [] then mpubTextLoop M R \<lparr>pending = rest, broken = b\<rparr> tot' msgs
        else if M < int (length tw)
        then (Inl (Err 413 ''MSG_TOO_BIG''), \<lparr>pending = rest, broken = b\<rparr>)
        else mpubTextLoop M R \<lparr>pending = rest, broken = b\<rparr> tot' (msgs @ [NewMessage 0 tw]))"
      using loop_found [OF True, of M R b tot msgs]
      by (simp add: Let_def tw_def rest_def tot'_def)
    have IH: "length (pending rdr') \<le> length rest
        \<and> (tot' + int (length rest) - int (length (pending rdr')) = R \<longrightarrow>
             r = Inl (Err 413 ''BODY_TOO_BIG''))"
      if "mpubTextLoop M R \<lparr>pending = rest, broken = b\<rparr> tot' ms = (r, rdr')" for ms
    proof (rule less.hyps [of rest tot' ms])
      show "length rest < length xs"
        using len by simp
      show "mpubTextLoop M R \<lparr>pending = rest, broken = b\<rparr> tot' ms = (r, rdr')"
        by (rule that)
      show "b \<longrightarrow> tot' + int (length rest) < R"
        using less.prems(2) len by (auto simp: tot'_def)
    qed
    have total: "tot' + int (length rest) = tot + int (length xs)"
      using len by (simp add: tot'_def)
    consider (body) "tot' = R"
      | (skip) "tot' \<noteq> R" "tw = []"
      | (long) "tot' \<noteq> R" "tw \<noteq> []" "M < int (length tw)"
      | (keep) "tot' \<noteq> R" "tw \<noteq> []" "\<not> M < int (length tw)"
      by blast
    then show ?thesis
    proof cases
      case body
      with less.prems(1) step have "r = Inl (Err 413 ''BODY_TOO_BIG'')" "pending rdr' = rest"
        by auto
      with len show ?thesis
        by simp
    next
      case skip
      with less.prems(1) step
      have "mpubTextLoop M R \<lparr>pending = rest, broken = b\<rparr> tot' msgs = (r, rdr')"
        by simp
      from IH [OF this] total len show ?thesis
        by auto
    next
      case long
      with less.prems(1) step have "pending rdr' = rest"
        by auto
      with long(1) total show ?thesis
        using len by auto
    next
      case keep
      with less.prems(1) step
      have "mpubTextLoop M R \<lparr>pending = rest, broken = b\<rparr> tot' (msgs @ [NewMessage 0 tw])
          = (r, rdr')"
        by simp
      from IH [OF this] total len show ?thesis
        by auto
    qed
  next
    case False
    with less.prems show ?thesis
      by (auto simp: loop_end split: if_splits)
  qed
qed

text \<open>The decoder on a body, with a body ceiling below the largest \<open>int64\<close>.\<close>

lemma mpubText_loop:
  assumes "0 \<le> MaxBodySize opts" and "MaxBodySize opts + 1 < 2 ^ 63"
  shows "mpubText opts body =
     (case mpubTextLoop (MaxMsgSize opts) (MaxBodySize opts + 1)
            \<lparr>pending = take (nat (MaxBodySize opts + 1)) (pending body),
             broken = (broken body \<and> length (pending body) < nat (MaxBodySize opts + 1))\<rparr> 0 [] of
        (r, rdr') \<Rightarrow>
          (r, length (take (nat (MaxBodySize opts + 1)) (pending body)) - length (pending rdr')))"
proof -
  have "int64 (MaxBodySize opts + 1) = MaxBodySize opts + 1"
    using assms by (simp add: int64_id is_int64_def)
  then show ?thesis
    by (simp add: mpubText_def LimitReader_def Let_def)
qed

lemma mpubText_decodes:
  assumes "0 \<le> MaxBodySize opts" and "MaxBodySize opts + 1 < 2 ^ 63"
    and "\<not> broken body" and "int (length (pending body)) \<le> MaxBodySize opts"
    and "\<forall>l \<in> set (chunks (pending body)). int (length l) \<le> MaxMsgSize opts"
  shows "mpubText opts body =
     (Inr (map (NewMessage 0) (filter (\<lambda>l. l \<noteq> []) (chunks (pending body)))),
      length (pending body))"
proof -
  have "mpubTextLoop (MaxMsgSize opts) (MaxBodySize opts + 1)
          \<lparr>pending = pending body, broken = False\<rparr> 0 [] =
     (Inr ([] @ map (NewMessage 0) (filter (\<lambda>l. l \<noteq> []) (chunks (pending body)))),
      \<lparr>pending = [], broken = False\<rparr>)"
    using assms(4,5) by (intro loop_decodes) auto
  with assms(1-4) show ?thesis
    by (simp add: mpubText_loop)
qed

lemma mpubText_long_chunk:
  assumes "0 \<le> MaxBodySize opts" and "MaxBodySize opts + 1 < 2 ^ 63"
    and "\<not> broken body" and "int (length (pending body)) \<le> MaxBodySize opts"
    and "\<exists>l \<in> set (chunks (pending body)). l \<noteq> [] \<and> MaxMsgSize opts < int (length l)"
  shows "fst (mpubText opts body) = Inl (Err 413 ''MSG_TOO_BIG'')"
proof -
  have "fst (mpubTextLoop (MaxMsgSize opts) (MaxBodySize opts + 1)
          \<lparr>pending = pending body, broken = False\<rparr> 0 []) = Inl (Err 413 ''MSG_TOO_BIG'')"
    using assms(4,5) by (intro loop_rejects_long_chunk) auto
  with assms(1-4) show ?thesis
    by (auto simp: mpubText_loop split: prod.splits)
qed

lemma mpubText_reaches_limit:
  assumes "0 \<le> MaxBodySize opts" and "MaxBodySize opts + 1 < 2 ^ 63"
    and "int (snd (mpubText opts body)) = MaxBodySize opts + 1"
  shows "fst (mpubText opts body) = Inl (Err 413 ''BODY_TOO_BIG'')"
proof -
  define R where "R = MaxBodySize opts + 1"
  define xs where "xs = take (nat R) (pending body)"
  define b where "b = (broken body \<and> length (pending body) < nat R)"
  obtain r rdr' where run:
    "mpubTextLoop (MaxMsgSize opts) R \<lparr>pending = xs, broken = b\<rparr> 0 [] = (r, rdr')"
    by (cases "mpubTextLoop (MaxMsgSize opts) R \<lparr>pending = xs, broken = b\<rparr> 0 []")
  have decoded: "mpubText opts body = (r, length xs - length (pending rdr'))"
    using run mpubText_loop [OF assms(1,2), of body]
    by (simp add: R_def xs_def b_def)
  have "b \<longrightarrow> 0 + int (length xs) < R"
    using assms(1) by (auto simp: b_def xs_def R_def)
  with run have shorter: "length (pending rdr') \<le> length xs"
    and full: "0 + int (length xs) - int (length (pending rdr')) = R \<longrightarrow>
         r = Inl (Err 413 ''BODY_TOO_BIG'')"
    using loop_consumed [of "MaxMsgSize opts" R xs b 0 "[]" r rdr'] by blast+
  from assms(3) decoded have "int (length xs - length (pending rdr')) = R"
    by (simp add: R_def)
  with shorter have "0 + int (length xs) - int (length (pending rdr')) = R"
    by simp
  with full have "r = Inl (Err 413 ''BODY_TOO_BIG'')"
    by blast
  with decoded show ?thesis
    by simp
qed

lemma mpubText_over_limit:
  assumes "0 \<le> MaxBodySize opts" and "MaxBodySize opts + 1 < 2 ^ 63"
    and "MaxBodySize opts < int (length (pending body))"
  shows "fst (mpubText opts body) = Inl (Err 413 ''BODY_TOO_BIG'')
    \<or> fst (mpubText opts body) = Inl (Err 413 ''MSG_TOO_BIG'')"
proof -
  let ?R = "MaxBodySize opts + 1"
  let ?xs = "take (nat ?R) (pending body)"
  have "0 + int (length ?xs) = ?R"
    using assms(1,3) by simp
  then have "fst (mpubTextLoop (MaxMsgSize opts) ?R \<lparr>pending = ?xs, broken = False\<rparr> 0 [])
        = Inl (Err 413 ''BODY_TOO_BIG'')
     \<or> fst (mpubTextLoop (MaxMsgSize opts) ?R \<lparr>pending = ?xs, broken = False\<rparr> 0 [])
        = Inl (Err 413 ''MSG_TOO_BIG'')"
    by (rule loop_full_fails)
  moreover have "\<not> (broken body \<and> length (pending body) < nat ?R)"
    using assms(1,3) by auto
  ultimately show ?thesis
    using assms(1,2) by (auto simp: mpubText_loop split: prod.splits)
qed

text \<open>What the two handlers do with the result of the decoder.\<close>

lemma doMPUB_text:
  assumes "textBatchRequest ctx req topic"
  shows "doMPUB ctx req =
     (case fst (mpubText (getOpts ctx) (ReqBody req)) of
        Inl e \<Rightarrow>
          \<lparr>answer = Failed e, calls = [NewBufioReader, PutBufioReader],
           nread = snd (mpubText (getOpts ctx) (ReqBody req))\<rparr>
      | Inr msgs \<Rightarrow>
          \<lparr>answer = (if topicPutMessages ctx topic msgs \<noteq> None
                     then Failed (Err 503 ''EXITING'') else OK ''OK''),
           calls = [NewBufioReader, PutMessages topic msgs,
                    SetHealth (topicPutMessages ctx topic msgs), PutBufioReader],
           nread = snd (mpubText (getOpts ctx) (ReqBody req))\<rparr>)"
  using assms
  by (auto simp: textBatchRequest_def doMPUB_def doMPUB_write_def Let_def
      split: prod.splits sum.splits)

lemma nsqd_doMPUB_text:
  assumes "nsqd_textBatchRequest nctx req topic"
  shows "nsqd_doMPUB nctx req =
     (case fst (mpubText (nsqd_getOpts nctx) (ReqBody req)) of
        Inl e \<Rightarrow>
          \<lparr>answer = Failed e, calls = [],
           nread = snd (mpubText (nsqd_getOpts nctx) (ReqBody req))\<rparr>
      | Inr msgs \<Rightarrow>
          \<lparr>answer = (if nsqd_PutMessages nctx topic msgs \<noteq> None
                     then Failed (Err 503 ''EXITING'') else OK ''OK''),
           calls = [PutMessages topic msgs],
           nread = snd (mpubText (nsqd_getOpts nctx) (ReqBody req))\<rparr>)"
  using assms
  by (auto simp: nsqd_textBatchRequest_def nsqd_doMPUB_def nsqd_doMPUB_write_def Let_def
      split: prod.splits sum.splits)

text \<open>
  C3. With a body ceiling \<open>MaxBodySize\<close> that is non-negative and below the largest
  \<open>int64\<close>: a body within that ceiling, read without a read error, whose chunks are all
  within \<open>MaxMsgSize\<close>, decodes to its non-empty chunks, in order, one message each; the
  empty chunks give no message and no error. The body \<open>a\<close>, newline, newline, \<open>b\<close>,
  newline decodes to the messages \<open>a\<close> and \<open>b\<close>; the body of three newlines decodes to the
  empty batch. A decoded batch, the empty one too, is put on the topic, and the answer is
  \<open>OK\<close> unless the engine refuses the put.
\<close>

theorem text_batch_skips_empty_chunks:
  assumes "0 \<le> MaxBodySize opts" and "MaxBodySize opts + 1 < 2 ^ 63"
  shows "(\<not> broken body \<and> int (length (pending body)) \<le> MaxBodySize opts
        \<and> (\<forall>l \<in> set (chunks (pending body)). int (length l) \<le> MaxMsgSize opts) \<longrightarrow>
        mpubText opts body =
          (Inr (map (NewMessage 0) (filter (\<lambda>l. l \<noteq> []) (chunks (pending body)))),
           length (pending body)))
    \<and> (5 \<le> MaxBodySize opts \<and> 1 \<le> MaxMsgSize opts \<longrightarrow>
        mpubText opts \<lparr>pending = [CHR ''a'', newline, newline, CHR ''b'', newline],
                       broken = False\<rparr>
          = (Inr [NewMessage 0 ''a'', NewMessage 0 ''b''], 5))
    \<and> (3 \<le> MaxBodySize opts \<longrightarrow>
        mpubText opts \<lparr>pending = [newline, newline, newline], broken = False\<rparr> = (Inr [], 3))
    \<and> (textBatchRequest ctx req topic \<and> getOpts ctx = opts
        \<and> fst (mpubText opts (ReqBody req)) = Inr msgs \<longrightarrow>
        doMPUB ctx req =
          \<lparr>answer = (if topicPutMessages ctx topic msgs \<noteq> None
                     then Failed (Err 503 ''EXITING'') else OK ''OK''),
           calls = [NewBufioReader, PutMessages topic msgs,
                    SetHealth (topicPutMessages ctx topic msgs), PutBufioReader],
           nread = snd (mpubText opts (ReqBody req))\<rparr>)
    \<and> (nsqd_textBatchRequest nctx req topic' \<and> nsqd_getOpts nctx = opts
        \<and> fst (mpubText opts (ReqBody req)) = Inr msgs \<longrightarrow>
        nsqd_doMPUB nctx req =
          \<lparr>answer = (if nsqd_PutMessages nctx topic' msgs \<noteq> None
                     then Failed (Err 503 ''EXITING'') else OK ''OK''),
           calls = [PutMessages topic' msgs],
           nread = snd (mpubText opts (ReqBody req))\<rparr>)"
proof -
  have general: "mpubText opts body =
          (Inr (map (NewMessage 0) (filter (\<lambda>l. l \<noteq> []) (chunks (pending body)))),
           length (pending body))"
    if "\<not> broken body" "int (length (pending body)) \<le> MaxBodySize opts"
      "\<forall>l \<in> set (chunks (pending body)). int (length l) \<le> MaxMsgSize opts" for body
    using assms that by (rule mpubText_decodes)
  have ab: "mpubText opts \<lparr>pending = [CHR ''a'', newline, newline, CHR ''b'', newline],
                       broken = False\<rparr>
          = (Inr [NewMessage 0 ''a'', NewMessage 0 ''b''], 5)"
    if "5 \<le> MaxBodySize opts" "1 \<le> MaxMsgSize opts"
    using that
      general [of "\<lparr>pending = [CHR ''a'', newline, newline, CHR ''b'', newline], broken = False\<rparr>"]
    by (simp add: newline_def)
  have blank: "mpubText opts \<lparr>pending = [newline, newline, newline], broken = False\<rparr>
      = (Inr [], 3)"
    if "3 \<le> MaxBodySize opts"
    using that assms
    by (simp add: mpubText_loop loop_found loop_end)
  have server: "doMPUB ctx req =
          \<lparr>answer = (if topicPutMessages ctx topic msgs \<noteq> None
                     then Failed (Err 503 ''EXITING'') else OK ''OK''),
           calls = [NewBufioReader, PutMessages topic msgs,
                    SetHealth (topicPutMessages ctx topic msgs), PutBufioReader],
           nread = snd (mpubText opts (ReqBody req))\<rparr>"
    if "textBatchRequest ctx req topic" "getOpts ctx = opts"
      "fst (mpubText opts (ReqBody req)) = Inr msgs"
    using that by (simp add: doMPUB_text)
  have package: "nsqd_doMPUB nctx req =
          \<lparr>answer = (if nsqd_PutMessages nctx topic' msgs \<noteq> None
                     then Failed (Err 503 ''EXITING'') else OK ''OK''),
           calls = [PutMessages topic' msgs],
           nread = snd (mpubText opts (ReqBody req))\<rparr>"
    if "nsqd_textBatchRequest nctx req topic'" "nsqd_getOpts nctx = opts"
      "fst (mpubText opts (ReqBody req)) = Inr msgs"
    using that by (simp add: nsqd_doMPUB_text)
  from general ab blank server package show ?thesis
    by blast
qed

theorem text_batch_skips_empty_chunks_witness:
  "doMPUB (sampleCtx True) (pubReq 5 [CHR ''a'', newline, newline, CHR ''b'', newline]) =
     \<lparr>answer = OK ''OK'',
      calls = [NewBufioReader, PutMessages sampleTopic [NewMessage 0 ''a'', NewMessage 0 ''b''],
               SetHealth None, PutBufioReader],
      nread = 5\<rparr>
   \<and> doMPUB (sampleCtx True) (pubReq 3 [newline, newline, newline]) =
     \<lparr>answer = OK ''OK'',
      calls = [NewBufioReader, PutMessages sampleTopic [], SetHealth None, PutBufioReader],
      nread = 3\<rparr>
   \<and> nsqd_doMPUB sampleNsqd (pubReq 3 [newline, newline, newline]) =
     \<lparr>answer = OK ''OK'', calls = [PutMessages sampleTopic []], nread = 3\<rparr>"
proof -
  have sizes: "0 \<le> MaxBodySize sampleOpts" "MaxBodySize sampleOpts + 1 < 2 ^ 63"
    "5 \<le> MaxBodySize sampleOpts" "1 \<le> MaxMsgSize sampleOpts" "3 \<le> MaxBodySize sampleOpts"
    by (simp_all add: sampleOpts_def)
  have req: "textBatchRequest (sampleCtx True) (pubReq n bytes) sampleTopic"
    "nsqd_textBatchRequest sampleNsqd (pubReq n bytes) sampleTopic"
    if "n \<le> 20" for n bytes
    using that
    by (simp_all add: textBatchRequest_def nsqd_textBatchRequest_def sampleCtx_def
        sampleNsqd_def pubReq_def getExistingTopicFromQuery_def nsqd_getTopicFromQuery_def
        sampleOpts_def sampleTopic_def)
  have node: "getOpts (sampleCtx True) = sampleOpts" "nsqd_getOpts sampleNsqd = sampleOpts"
    "ReqBody (pubReq n bytes) = \<lparr>pending = bytes, broken = False\<rparr>"
    "topicPutMessages (sampleCtx True) sampleTopic ms = None"
    "nsqd_PutMessages sampleNsqd sampleTopic ms = None" for n bytes ms
    by (simp_all add: sampleCtx_def sampleNsqd_def pubReq_def)
  note facts = text_batch_skips_empty_chunks [OF sizes(1,2)]
  from facts [where ctx = "sampleCtx True" and topic = sampleTopic
      and req = "pubReq 5 [CHR ''a'', newline, newline, CHR ''b'', newline]"
      and msgs = "[NewMessage 0 ''a'', NewMessage 0 ''b'']"]
  have a: "doMPUB (sampleCtx True) (pubReq 5 [CHR ''a'', newline, newline, CHR ''b'', newline]) =
     \<lparr>answer = OK ''OK'',
      calls = [NewBufioReader, PutMessages sampleTopic [NewMessage 0 ''a'', NewMessage 0 ''b''],
               SetHealth None, PutBufioReader],
      nread = 5\<rparr>"
    using sizes(3,4) by (simp add: req node)
  from facts [where ctx = "sampleCtx True" and topic = sampleTopic
      and nctx = sampleNsqd and topic' = sampleTopic
      and req = "pubReq 3 [newline, newline, newline]" and msgs = "[]"]
  have b: "doMPUB (sampleCtx True) (pubReq 3 [newline, newline, newline]) =
     \<lparr>answer = OK ''OK'',
      calls = [NewBufioReader, PutMessages sampleTopic [], SetHealth None, PutBufioReader],
      nread = 3\<rparr>"
    and c: "nsqd_doMPUB sampleNsqd (pubReq 3 [newline, newline, newline]) =
     \<lparr>answer = OK ''OK'', calls = [PutMessages sampleTopic []], nread = 3\<rparr>"
    using sizes(5) by (simp_all add: req node)
  from a b c show ?thesis
    by simp
qed

text \<open>
  C4. With a body ceiling \<open>MaxBodySize\<close> that is non-negative and below the largest
  \<open>int64\<close>. The loop compares the bytes read so far with \<open>MaxBodySize + 1\<close> before it looks
  at the chunk just read. So: when the bytes read reach \<open>MaxBodySize + 1\<close> the decode
  fails with \<open>BODY_TOO_BIG\<close>; a body within the body ceiling, read without a read
  error, that has a non-empty chunk above \<open>MaxMsgSize\<close> fails with \<open>MSG_TOO_BIG\<close>; a body
  above the body ceiling fails with one of the two. When the decode fails, the handler
  answers the error of the decoder and puts nothing on the topic: the messages decoded
  before the failure are dropped.
\<close>

theorem text_batch_size_failures:
  assumes "0 \<le> MaxBodySize opts" and "MaxBodySize opts + 1 < 2 ^ 63"
  shows "(\<not> broken body \<and> int (length (pending body)) \<le> MaxBodySize opts
        \<and> (\<exists>l \<in> set (chunks (pending body)). l \<noteq> [] \<and> MaxMsgSize opts < int (length l)) \<longrightarrow>
        fst (mpubText opts body) = Inl (Err 413 ''MSG_TOO_BIG''))
    \<and> (int (snd (mpubText opts body)) = MaxBodySize opts + 1 \<longrightarrow>
        fst (mpubText opts body) = Inl (Err 413 ''BODY_TOO_BIG''))
    \<and> (MaxBodySize opts < int (length (pending body)) \<longrightarrow>
        fst (mpubText opts body) = Inl (Err 413 ''BODY_TOO_BIG'')
        \<or> fst (mpubText opts body) = Inl (Err 413 ''MSG_TOO_BIG''))
    \<and> (textBatchRequest ctx req topic \<and> getOpts ctx = opts
        \<and> fst (mpubText opts (ReqBody req)) = Inl e \<longrightarrow>
        doMPUB ctx req =
          \<lparr>answer = Failed e, calls = [NewBufioReader, PutBufioReader],
           nread = snd (mpubText opts (ReqBody req))\<rparr>)
    \<and> (nsqd_textBatchRequest nctx req topic' \<and> nsqd_getOpts nctx = opts
        \<and> fst (mpubText opts (ReqBody req)) = Inl e \<longrightarrow>
        nsqd_doMPUB nctx req =
          \<lparr>answer = Failed e, calls = [], nread = snd (mpubText opts (ReqBody req))\<rparr>)"
proof -
  have long: "fst (mpubText opts body) = Inl (Err 413 ''MSG_TOO_BIG'')"
    if "\<not> broken body" "int (length (pending body)) \<le> MaxBodySize opts"
      "\<exists>l \<in> set (chunks (pending body)). l \<noteq> [] \<and> MaxMsgSize opts < int (length l)"
    using assms that by (rule mpubText_long_chunk)
  have limit: "fst (mpubText opts body) = Inl (Err 413 ''BODY_TOO_BIG'')"
    if "int (snd (mpubText opts body)) = MaxBodySize opts + 1"
    using assms that by (rule mpubText_reaches_limit)
  have over: "fst (mpubText opts body) = Inl (Err 413 ''BODY_TOO_BIG'')
        \<or> fst (mpubText opts body) = Inl (Err 413 ''MSG_TOO_BIG'')"
    if "MaxBodySize opts < int (length (pending body))"
    using assms that by (rule mpubText_over_limit)
  have server: "doMPUB ctx req =
          \<lparr>answer = Failed e, calls = [NewBufioReader, PutBufioReader],
           nread = snd (mpubText opts (ReqBody req))\<rparr>"
    if "textBatchRequest ctx req topic" "getOpts ctx = opts"
      "fst (mpubText opts (ReqBody req)) = Inl e"
    using that by (simp add: doMPUB_text)
  have package: "nsqd_doMPUB nctx req =
          \<lparr>answer = Failed e, calls = [], nread = snd (mpubText opts (ReqBody req))\<rparr>"
    if "nsqd_textBatchRequest nctx req topic'" "nsqd_getOpts nctx = opts"
      "fst (mpubText opts (ReqBody req)) = Inl e"
    using that by (simp add: nsqd_doMPUB_text)
  from long limit over server package show ?thesis
    by blast
qed

theorem text_batch_size_failures_witness:
  "doMPUB (sampleCtx True) (pubReq 14 (''a'' @ [newline] @ ''0123456789A'' @ [newline])) =
     \<lparr>answer = Failed (Err 413 ''MSG_TOO_BIG''), calls = [NewBufioReader, PutBufioReader],
      nread = 14\<rparr>
   \<and> nsqd_doMPUB sampleNsqd
        (pubReq (- 1) (''012345678'' @ [newline] @ ''012345678'' @ [newline] @ ''A'')) =
     \<lparr>answer = Failed (Err 413 ''BODY_TOO_BIG''), calls = [], nread = 21\<rparr>"
proof -
  let ?long = "''a'' @ [newline] @ ''0123456789A'' @ [newline]"
  let ?big = "''012345678'' @ [newline] @ ''012345678'' @ [newline] @ ''A''"
  have sizes: "0 \<le> MaxBodySize sampleOpts" "MaxBodySize sampleOpts + 1 < 2 ^ 63"
    "MaxBodySize sampleOpts = 20" "MaxMsgSize sampleOpts = 10"
    by (simp_all add: sampleOpts_def)
  have req: "textBatchRequest (sampleCtx True) (pubReq n bytes) sampleTopic"
    "nsqd_textBatchRequest sampleNsqd (pubReq n bytes) sampleTopic"
    if "n \<le> 20" for n bytes
    using that
    by (simp_all add: textBatchRequest_def nsqd_textBatchRequest_def sampleCtx_def
        sampleNsqd_def pubReq_def getExistingTopicFromQuery_def nsqd_getTopicFromQuery_def
        sampleOpts_def sampleTopic_def)
  have node: "getOpts (sampleCtx True) = sampleOpts" "nsqd_getOpts sampleNsqd = sampleOpts"
    "ReqBody (pubReq n bytes) = \<lparr>pending = bytes, broken = False\<rparr>" for n bytes
    by (simp_all add: sampleCtx_def sampleNsqd_def pubReq_def)
  have read_long: "snd (mpubText sampleOpts \<lparr>pending = ?long, broken = False\<rparr>) = 14"
    by (simp add: mpubText_def sampleOpts_def int64_def LimitReader_def mpubTextLoop.simps
        ReadBytes_def newline_def)
  have read_big: "snd (mpubText sampleOpts \<lparr>pending = ?big, broken = False\<rparr>) = 21"
    by (simp add: mpubText_def sampleOpts_def int64_def LimitReader_def mpubTextLoop.simps
        ReadBytes_def newline_def)
  note facts = text_batch_size_failures [OF sizes(1,2)]
  have "\<not> broken \<lparr>pending = ?long, broken = False\<rparr>
      \<and> int (length (pending \<lparr>pending = ?long, broken = False\<rparr>)) \<le> MaxBodySize sampleOpts
      \<and> (\<exists>l \<in> set (chunks (pending \<lparr>pending = ?long, broken = False\<rparr>)).
            l \<noteq> [] \<and> MaxMsgSize sampleOpts < int (length l))"
    by (simp add: newline_def sampleOpts_def)
  with facts [where body = "\<lparr>pending = ?long, broken = False\<rparr>"]
  have "fst (mpubText sampleOpts \<lparr>pending = ?long, broken = False\<rparr>)
      = Inl (Err 413 ''MSG_TOO_BIG'')"
    by blast
  then have "textBatchRequest (sampleCtx True) (pubReq 14 ?long) sampleTopic
      \<and> getOpts (sampleCtx True) = sampleOpts
      \<and> fst (mpubText sampleOpts (ReqBody (pubReq 14 ?long))) = Inl (Err 413 ''MSG_TOO_BIG'')"
    using req(1) [of 14 ?long] node(1) node(3) [of 14 ?long] by simp
  with facts [where ctx = "sampleCtx True" and topic = sampleTopic and req = "pubReq 14 ?long"
      and e = "Err 413 ''MSG_TOO_BIG''"]
  have "doMPUB (sampleCtx True) (pubReq 14 ?long) =
     \<lparr>answer = Failed (Err 413 ''MSG_TOO_BIG''), calls = [NewBufioReader, PutBufioReader],
      nread = snd (mpubText sampleOpts (ReqBody (pubReq 14 ?long)))\<rparr>"
    by blast
  with read_long have a: "doMPUB (sampleCtx True) (pubReq 14 ?long) =
     \<lparr>answer = Failed (Err 413 ''MSG_TOO_BIG''), calls = [NewBufioReader, PutBufioReader],
      nread = 14\<rparr>"
    by (simp add: node(3))
  have "int (snd (mpubText sampleOpts \<lparr>pending = ?big, broken = False\<rparr>))
      = MaxBodySize sampleOpts + 1"
    using read_big by (simp add: sizes(3))
  with facts [where body = "\<lparr>pending = ?big, broken = False\<rparr>"]
  have "fst (mpubText sampleOpts \<lparr>pending = ?big, broken = False\<rparr>)
      = Inl (Err 413 ''BODY_TOO_BIG'')"
    by blast
  then have "nsqd_textBatchRequest sampleNsqd (pubReq (- 1) ?big) sampleTopic
      \<and> nsqd_getOpts sampleNsqd = sampleOpts
      \<and> fst (mpubText sampleOpts (ReqBody (pubReq (- 1) ?big))) = Inl (Err 413 ''BODY_TOO_BIG'')"
    using req(2) [of "- 1" ?big] node(2) node(3) [of "- 1" ?big] by simp
  with facts [where nctx = sampleNsqd and topic' = sampleTopic and req = "pubReq (- 1) ?big"
      and e = "Err 413 ''BODY_TOO_BIG''"]
  have "nsqd_doMPUB sampleNsqd (pubReq (- 1) ?big) =
     \<lparr>answer = Failed (Err 413 ''BODY_TOO_BIG''), calls = [],
      nread = snd (mpubText sampleOpts (ReqBody (pubReq (- 1) ?big)))\<rparr>"
    by blast
  with read_big have b: "nsqd_doMPUB sampleNsqd (pubReq (- 1) ?big) =
     \<lparr>answer = Failed (Err 413 ''BODY_TOO_BIG''), calls = [], nread = 21\<rparr>"
    by (simp add: node(3))
  from a b show ?thesis
    by simp
qed

end
